theory Spec2Isabelle
  imports Complex_Main
begin

section \<open>The MTG price tracker: session acquisition and the cached query operations\<close>

text \<open>
  The program is a Streamlit script (\<^verbatim>\<open>streamlit_app.py\<close>). Its core is
  \<^verbatim>\<open>get_snowflake_session\<close> and three query functions decorated with
  \<^verbatim>\<open>@st.cache_data(ttl=86400)\<close>. Everything the script does to the outside world
  (asking for the ambient session, building one from credentials, sending SQL, showing
  a message, stopping or rerunning the script) is recorded as an event appended to a
  trace, so that "was the fetch invoked" and "which string was sent to the executor"
  are questions about the trace.
\<close>

subsection \<open>Data\<close>

text \<open>A session handle is opaque; the number only tells handles apart.\<close>

datatype session = SessionHandle nat

text \<open>
  A pandas DataFrame, as far as the script looks at it: its column labels and its rows.
  \<^verbatim>\<open>pd.DataFrame()\<close> has no columns and no rows; \<^verbatim>\<open>df.empty\<close> is true when either axis
  has length zero.
\<close>

datatype cell = CStr string | CNum real | CNull

record dataframe =
  df_columns :: "string list"
  df_rows :: "cell list list"

definition pd_DataFrame :: dataframe where
  "pd_DataFrame = \<lparr>df_columns = [], df_rows = []\<rparr>"

definition df_empty :: "dataframe \<Rightarrow> bool" where
  "df_empty df = (df_columns df = [] \<or> df_rows df = [])"

text \<open>
  The two exceptions that leave a function of the script: \<^verbatim>\<open>st.stop()\<close> and
  \<^verbatim>\<open>st.rerun()\<close> raise control exceptions of the framework that are not subclasses of
  \<^verbatim>\<open>Exception\<close>, so no \<^verbatim>\<open>except Exception\<close> handler of the script catches them.
  An exception raised by an external collaborator is represented by its message
  (\<^verbatim>\<open>str(e)\<close>), the left summand of the collaborator's result.
\<close>

datatype exn = StopException | RerunException

datatype event =
    GetActiveSession
  | BuilderCreate "(string \<times> string) list"
  | ExecSql session string
  | StError string
  | StSuccess string
  | StWarning string
  | StInfo string
  | StStop
  | StRerun
  | CacheClear

text \<open>
  The external collaborators of one call: the hosting environment's ambient session
  (\<^verbatim>\<open>get_active_session()\<close>), the configuration store (\<^verbatim>\<open>st.secrets[section][key]\<close>),
  the session builder (\<^verbatim>\<open>Session.builder.configs(p).create()\<close>) and the query executor
  (\<^verbatim>\<open>session.sql(q).to_pandas()\<close>). Each either returns or raises. The last field is
  Python's own \<^verbatim>\<open>str.lower()\<close>, which lowers every cased letter of Unicode: it is a
  built-in of the language, not code of the script, and is taken as it is given.
\<close>

record env =
  get_active_session :: "string + session"
  st_secrets :: "string \<Rightarrow> string \<Rightarrow> string + string"
  builder_create :: "(string \<times> string) list \<Rightarrow> string + session"
  session_sql :: "session \<Rightarrow> string \<Rightarrow> string + dataframe"
  str_lower :: "string \<Rightarrow> string"

text \<open>
  Modelled from the spec: the cache key of \<^verbatim>\<open>st.cache_data\<close>, which belongs to the
  framework. The spec (section 3) makes it a deterministic function of the operation's
  name and its ordered parameter list, with different parameters giving different keys.
\<close>

datatype cache_key =
    Key_search_cards string string
  | Key_get_card_prices string
  | Key_get_price_after_launch

text \<open>
  The state that outlives a call: the process-wide result cache (key to stored result and
  insertion timestamp, in seconds), the trace of events so far, and the entry
  \<^verbatim>\<open>selected_card_id\<close> of \<^verbatim>\<open>st.session_state\<close> (absent before the first pass).
\<close>

record app_state =
  cache :: "cache_key \<rightharpoonup> dataframe \<times> real"
  trace :: "event list"
  selected_card_id :: "string option"

type_synonym 'a action = "app_state \<Rightarrow> (exn + 'a) \<times> app_state"

definition emit :: "event \<Rightarrow> app_state \<Rightarrow> app_state" where
  "emit e s = s\<lparr>trace := trace s @ [e]\<rparr>"

subsection \<open>Session acquisition\<close>

text \<open>
  The dictionary literal of \<^verbatim>\<open>get_snowflake_session\<close> reads six keys of the section
  \<^verbatim>\<open>snowflake\<close> in order; the first read that raises ends the evaluation.
\<close>

fun read_secrets :: "(string \<Rightarrow> string \<Rightarrow> string + string) \<Rightarrow> string list \<Rightarrow>
    string + (string \<times> string) list" where
  "read_secrets sec [] = Inr []"
| "read_secrets sec (k # ks) =
     (case sec ''snowflake'' k of
        Inl e \<Rightarrow> Inl e
      | Inr v \<Rightarrow>
          (case read_secrets sec ks of
             Inl e \<Rightarrow> Inl e
           | Inr ps \<Rightarrow> Inr ((k, v) # ps)))"

definition connection_parameters :: "env \<Rightarrow> string + (string \<times> string) list" where
  "connection_parameters en =
     read_secrets (st_secrets en)
       [''account'', ''user'', ''password'', ''warehouse'', ''database'', ''schema'']"

text \<open>
  \<^verbatim>\<open>
  def get_snowflake_session():
      try:
          session = get_active_session()
          return session, "Connected using active Snowflake session"
      except:
          try:
              connection_parameters = {...}
              session = Session.builder.configs(connection_parameters).create()
              return session, "Connected to Snowflake using credentials"
          except Exception as e:
              st.error(f"Failed to connect to Snowflake: {e}")
              st.stop()
  \<close>
\<close>

definition connect_failed :: "string \<Rightarrow> (session \<times> string) action" where
  "connect_failed e s =
     (Inl StopException,
      emit StStop (emit (StError (''Failed to connect to Snowflake: '' @ e)) s))"

definition get_snowflake_session :: "env \<Rightarrow> (session \<times> string) action" where
  "get_snowflake_session en s =
     (let s1 = emit GetActiveSession s in
      case get_active_session en of
        Inr session \<Rightarrow> (Inr (session, ''Connected using active Snowflake session''), s1)
      | Inl _ \<Rightarrow>
          (case connection_parameters en of
             Inl e \<Rightarrow> connect_failed e s1
           | Inr ps \<Rightarrow>
               (let s2 = emit (BuilderCreate ps) s1 in
                case builder_create en ps of
                  Inr session \<Rightarrow>
                    (Inr (session, ''Connected to Snowflake using credentials''), s2)
                | Inl e \<Rightarrow> connect_failed e s2)))"

subsection \<open>The result cache\<close>

text \<open>
  Modelled from the spec: the decorator \<^verbatim>\<open>st.cache_data(ttl=...)\<close> and
  \<^verbatim>\<open>st.cache_data.clear()\<close>, which belong to the framework. Section 4.2 of the spec:
  on a hit (key present and \<open>now - insertion timestamp < TTL\<close>) the stored result is
  returned and the function is not run; on a miss the function is run, and when it
  returns, \<open>(key, result, now)\<close> is stored; when it raises, the exception propagates and
  nothing is stored. Expiry is checked at read time only. \<open>clear\<close> removes every entry.
  The replay of messages recorded inside a cached function is not modelled.
\<close>

definition cache_lookup :: "real \<Rightarrow> cache_key \<Rightarrow> real \<Rightarrow> app_state \<Rightarrow> dataframe option" where
  "cache_lookup ttl key now s =
     (case cache s key of
        None \<Rightarrow> None
      | Some (df, inserted) \<Rightarrow> if now - inserted < ttl then Some df else None)"

definition cache_data :: "real \<Rightarrow> cache_key \<Rightarrow> dataframe action \<Rightarrow> real \<Rightarrow> dataframe action" where
  "cache_data ttl key fetchFn now s =
     (case cache_lookup ttl key now s of
        Some df \<Rightarrow> (Inr df, s)
      | None \<Rightarrow>
          (case fetchFn s of
             (Inr df, s') \<Rightarrow> (Inr df, s'\<lparr>cache := (cache s')(key \<mapsto> (df, now))\<rparr>)
           | (Inl e, s') \<Rightarrow> (Inl e, s')))"

definition cache_data_clear :: "app_state \<Rightarrow> app_state" where
  "cache_data_clear s = emit CacheClear (s\<lparr>cache := Map.empty\<rparr>)"

subsection \<open>The query operations\<close>

text \<open>The apostrophe that the f-strings put around each interpolated value.\<close>

definition apostrophe :: char where
  "apostrophe = CHR 0x27"

text \<open>
  \<^verbatim>\<open>
  @st.cache_data(ttl=86400)
  def search_cards(search_term1, search_term2):
      session, _ = get_snowflake_session()
      try:
          search_query = f"SELECT * FROM TABLE(MTG_COST.PUBLIC.GET_CARD_ID('{search_term1}', '{search_term2}')) LIMIT 1000"
          search_result = session.sql(search_query)
          search_df = search_result.to_pandas()
          return search_df
      except Exception as e:
          st.error(f"Error searching cards: {str(e)}")
          return pd.DataFrame()
  \<close>
  The call of \<^verbatim>\<open>get_snowflake_session\<close> stands before the \<^verbatim>\<open>try\<close>: its
  \<^verbatim>\<open>StopException\<close> leaves the function.
\<close>

definition search_query :: "string \<Rightarrow> string \<Rightarrow> string" where
  "search_query search_term1 search_term2 =
     ''SELECT * FROM TABLE(MTG_COST.PUBLIC.GET_CARD_ID('' @ [apostrophe] @ search_term1 @
     [apostrophe] @ '', '' @ [apostrophe] @ search_term2 @ [apostrophe] @ '')) LIMIT 1000''"

definition search_cards_body :: "env \<Rightarrow> string \<Rightarrow> string \<Rightarrow> dataframe action" where
  "search_cards_body en search_term1 search_term2 s =
     (case get_snowflake_session en s of
        (Inl e, s1) \<Rightarrow> (Inl e, s1)
      | (Inr (session, _), s1) \<Rightarrow>
          (let q = search_query search_term1 search_term2;
               s2 = emit (ExecSql session q) s1
           in case session_sql en session q of
                Inr search_df \<Rightarrow> (Inr search_df, s2)
              | Inl e \<Rightarrow> (Inr pd_DataFrame, emit (StError (''Error searching cards: '' @ e)) s2)))"

definition search_cards :: "env \<Rightarrow> string \<Rightarrow> string \<Rightarrow> real \<Rightarrow> dataframe action" where
  "search_cards en search_term1 search_term2 now =
     cache_data 86400 (Key_search_cards search_term1 search_term2)
       (search_cards_body en search_term1 search_term2) now"

text \<open>
  \<^verbatim>\<open>
  @st.cache_data(ttl=86400)
  def get_card_prices(card_id):
      session, _ = get_snowflake_session()
      try:
          query = f"SELECT * FROM TABLE(MTG_COST.PUBLIC.GET_CARD_PRICES('{card_id}'))"
          result = session.sql(query)
          df = result.to_pandas()
          return df
      except Exception as e:
          st.error(f"Error querying data: {str(e)}")
          return pd.DataFrame()
  \<close>
\<close>

definition prices_query :: "string \<Rightarrow> string" where
  "prices_query card_id =
     ''SELECT * FROM TABLE(MTG_COST.PUBLIC.GET_CARD_PRICES('' @ [apostrophe] @ card_id @
     [apostrophe] @ ''))''"

definition get_card_prices_body :: "env \<Rightarrow> string \<Rightarrow> dataframe action" where
  "get_card_prices_body en card_id s =
     (case get_snowflake_session en s of
        (Inl e, s1) \<Rightarrow> (Inl e, s1)
      | (Inr (session, _), s1) \<Rightarrow>
          (let q = prices_query card_id;
               s2 = emit (ExecSql session q) s1
           in case session_sql en session q of
                Inr df \<Rightarrow> (Inr df, s2)
              | Inl e \<Rightarrow> (Inr pd_DataFrame, emit (StError (''Error querying data: '' @ e)) s2)))"

definition get_card_prices :: "env \<Rightarrow> string \<Rightarrow> real \<Rightarrow> dataframe action" where
  "get_card_prices en card_id now =
     cache_data 86400 (Key_get_card_prices card_id) (get_card_prices_body en card_id) now"

text \<open>
  \<^verbatim>\<open>
  @st.cache_data(ttl=86400)
  def get_price_after_launch():
      session, _ = get_snowflake_session()
      try:
          query = "SELECT * FROM price_after_launch"
          result = session.sql(query)
          df = result.to_pandas()
          return df
      except Exception as e:
          st.error(f"Error querying price after launch data: {str(e)}")
          return pd.DataFrame()
  \<close>
\<close>

definition launch_query :: string where
  "launch_query = ''SELECT * FROM price_after_launch''"

definition get_price_after_launch_body :: "env \<Rightarrow> dataframe action" where
  "get_price_after_launch_body en s =
     (case get_snowflake_session en s of
        (Inl e, s1) \<Rightarrow> (Inl e, s1)
      | (Inr (session, _), s1) \<Rightarrow>
          (let q = launch_query;
               s2 = emit (ExecSql session q) s1
           in case session_sql en session q of
                Inr df \<Rightarrow> (Inr df, s2)
              | Inl e \<Rightarrow>
                  (Inr pd_DataFrame,
                   emit (StError (''Error querying price after launch data: '' @ e)) s2)))"

definition get_price_after_launch :: "env \<Rightarrow> real \<Rightarrow> dataframe action" where
  "get_price_after_launch en now =
     cache_data 86400 Key_get_price_after_launch (get_price_after_launch_body en) now"

subsection \<open>The render pass\<close>

text \<open>
  What \<^verbatim>\<open>str.lower()\<close> does to a string of ASCII characters: the letters A to Z become
  a to z and nothing else changes. The example environments below, whose inputs are
  ASCII, carry this function as their \<^verbatim>\<open>str.lower()\<close>; the script itself is modelled
  with the function of the environment.
\<close>

definition ascii_lower_char :: "char \<Rightarrow> char" where
  "ascii_lower_char c =
     (if 65 \<le> (of_char c :: nat) \<and> (of_char c :: nat) \<le> 90
      then char_of ((of_char c :: nat) + 32) else c)"

definition ascii_lower :: "string \<Rightarrow> string" where
  "ascii_lower xs = map ascii_lower_char xs"

text \<open>
  What the user did before the pass: the two text inputs of the search section, the two
  buttons, the identifier in the row of the result table the user selected (if any),
  and the text typed into the card identifier input (if any; otherwise the input shows
  \<^verbatim>\<open>st.session_state.selected_card_id\<close>).
\<close>

record ui_input =
  search_term1_raw :: string
  search_term2_raw :: string
  search_button :: bool
  clear_button :: bool
  selected_row_id :: "string option"
  card_id_input :: "string option"

text \<open>
  The script from top to bottom, one pass. Only what decides the control flow and the
  calls of the core is kept: layout, charts and tables are left out, and the pandas code
  that formats a non-empty result is taken not to raise. The pictographs at the start
  of some messages are left out of the message texts. The card identifier input shows
  \<^verbatim>\<open>st.session_state.selected_card_id\<close>, which the first lines of the script have
  set; the empty string stands in where a state without that entry is given.
  \<^verbatim>\<open>
  if 'selected_card_id' not in st.session_state:
      st.session_state.selected_card_id = "ecc1027a-8c07-44a0-bdde-fa2844cff694"
  ...
  session, connection_message = get_snowflake_session()
  st.success(connection_message)
  ...
      search_term1 = search_term1_raw.lower()
      search_term2 = search_term2_raw.lower()
  ...
      search_button = st.button("Search Cards")
      if st.button("Clear Cache"):
          st.cache_data.clear()
          st.success("Cache cleared!")
          st.rerun()
  if search_button or (search_term1 and search_term2):
      search_df = search_cards(search_term1, search_term2)
      if not search_df.empty:
          ...
          if len(event.selection.rows) > 0:
              ...
              if st.session_state.selected_card_id != selected_card_id:
                  st.session_state.selected_card_id = selected_card_id
                  st.success(...)
                  st.rerun()
          st.info(...)
      else:
          st.warning("No cards found matching your search terms.")
  card_id = st.text_input("Card ID", value=st.session_state.selected_card_id, ...)
  if card_id != st.session_state.selected_card_id:
      st.session_state.selected_card_id = card_id
  if card_id:
      df = get_card_prices(card_id)
      if not df.empty: ...
      else: st.warning("No data found for this card ID.")
  else:
      st.info("Please enter a card ID to view price data.")
  launch_df = get_price_after_launch()
  if not launch_df.empty: ...
  else: st.warning("No price after launch data available.")
  \<close>
\<close>

definition init_session_state :: "app_state \<Rightarrow> app_state" where
  "init_session_state s =
     (case selected_card_id s of
        None \<Rightarrow> s\<lparr>selected_card_id := Some ''ecc1027a-8c07-44a0-bdde-fa2844cff694''\<rparr>
      | Some _ \<Rightarrow> s)"

definition launch_section :: "env \<Rightarrow> real \<Rightarrow> unit action" where
  "launch_section en now s =
     (case get_price_after_launch en now s of
        (Inl e, s1) \<Rightarrow> (Inl e, s1)
      | (Inr launch_df, s1) \<Rightarrow>
          (Inr (),
           if \<not> df_empty launch_df then s1
           else emit (StWarning ''No price after launch data available.'') s1))"

definition price_section :: "env \<Rightarrow> ui_input \<Rightarrow> real \<Rightarrow> unit action" where
  "price_section en ui now s =
     (let card_id = (case card_id_input ui of
                       Some typed \<Rightarrow> typed
                     | None \<Rightarrow> (case selected_card_id s of Some c \<Rightarrow> c | None \<Rightarrow> []));
          s1 = (if Some card_id \<noteq> selected_card_id s
                then s\<lparr>selected_card_id := Some card_id\<rparr> else s)
      in if card_id \<noteq> [] then
           (case get_card_prices en card_id now s1 of
              (Inl e, s2) \<Rightarrow> (Inl e, s2)
            | (Inr df, s2) \<Rightarrow>
                (Inr (),
                 if \<not> df_empty df then s2
                 else emit (StWarning ''No data found for this card ID.'') s2))
         else (Inr (), emit (StInfo ''Please enter a card ID to view price data.'') s1))"

definition search_section :: "env \<Rightarrow> ui_input \<Rightarrow> real \<Rightarrow> unit action" where
  "search_section en ui now s =
     (let search_term1 = str_lower en (search_term1_raw ui);
          search_term2 = str_lower en (search_term2_raw ui)
      in if search_button ui \<or> (search_term1 \<noteq> [] \<and> search_term2 \<noteq> []) then
           (case search_cards en search_term1 search_term2 now s of
              (Inl e, s1) \<Rightarrow> (Inl e, s1)
            | (Inr search_df, s1) \<Rightarrow>
                if \<not> df_empty search_df then
                  (case selected_row_id ui of
                     Some selected \<Rightarrow>
                       if selected_card_id s1 \<noteq> Some selected then
                         (Inl RerunException,
                          emit StRerun
                            (emit (StSuccess (''Selected card ID: '' @ selected))
                               (s1\<lparr>selected_card_id := Some selected\<rparr>)))
                       else (Inr (), emit (StInfo ''Click on any row to select that card for price tracking below'') s1)
                   | None \<Rightarrow> (Inr (), emit (StInfo ''Click on any row to select that card for price tracking below'') s1))
                else
                  (Inr (), emit (StWarning ''No cards found matching your search terms.'') s1))
         else (Inr (), s))"

definition render_pass :: "env \<Rightarrow> ui_input \<Rightarrow> real \<Rightarrow> unit action" where
  "render_pass en ui now s =
     (case get_snowflake_session en (init_session_state s) of
        (Inl e, s1) \<Rightarrow> (Inl e, s1)
      | (Inr (session, connection_message), s1) \<Rightarrow>
          (let s2 = emit (StSuccess connection_message) s1 in
           if clear_button ui then
             (Inl RerunException,
              emit StRerun (emit (StSuccess ''Cache cleared!'') (cache_data_clear s2)))
           else
             (case search_section en ui now s2 of
                (Inl e, s3) \<Rightarrow> (Inl e, s3)
              | (Inr _, s3) \<Rightarrow>
                  (case price_section en ui now s3 of
                     (Inl e, s4) \<Rightarrow> (Inl e, s4)
                   | (Inr _, s4) \<Rightarrow> launch_section en now s4))))"

subsection \<open>Vocabulary of the statements\<close>

text \<open>
  A call of one of the three operations with its parameters, so that a statement can
  speak of every (operation, parameters) pair at once.
\<close>

datatype call = SearchCards string string | GetCardPrices string | GetPriceAfterLaunch

fun run_call :: "env \<Rightarrow> call \<Rightarrow> real \<Rightarrow> dataframe action" where
  "run_call en (SearchCards t1 t2) now = search_cards en t1 t2 now"
| "run_call en (GetCardPrices card_id) now = get_card_prices en card_id now"
| "run_call en GetPriceAfterLaunch now = get_price_after_launch en now"

fun key_of :: "call \<Rightarrow> cache_key" where
  "key_of (SearchCards t1 t2) = Key_search_cards t1 t2"
| "key_of (GetCardPrices card_id) = Key_get_card_prices card_id"
| "key_of GetPriceAfterLaunch = Key_get_price_after_launch"

fun query_of :: "call \<Rightarrow> string" where
  "query_of (SearchCards t1 t2) = search_query t1 t2"
| "query_of (GetCardPrices card_id) = prices_query card_id"
| "query_of GetPriceAfterLaunch = launch_query"

fun error_prefix :: "call \<Rightarrow> string" where
  "error_prefix (SearchCards t1 t2) = ''Error searching cards: ''"
| "error_prefix (GetCardPrices card_id) = ''Error querying data: ''"
| "error_prefix GetPriceAfterLaunch = ''Error querying price after launch data: ''"

text \<open>The shape the three function bodies share: they differ in the query and the message.\<close>

definition run_query :: "env \<Rightarrow> string \<Rightarrow> string \<Rightarrow> dataframe action" where
  "run_query en q prefix s =
     (case get_snowflake_session en s of
        (Inl e, s1) \<Rightarrow> (Inl e, s1)
      | (Inr (session, _), s1) \<Rightarrow>
          (case session_sql en session q of
             Inr df \<Rightarrow> (Inr df, emit (ExecSql session q) s1)
           | Inl e \<Rightarrow> (Inr pd_DataFrame, emit (StError (prefix @ e)) (emit (ExecSql session q) s1))))"

text \<open>The events a step added to the trace.\<close>

definition new_events :: "app_state \<Rightarrow> app_state \<Rightarrow> event list" where
  "new_events s s' = drop (length (trace s)) (trace s')"

fun is_ExecSql :: "event \<Rightarrow> bool" where
  "is_ExecSql (ExecSql h q) = True"
| "is_ExecSql e = False"

fun is_BuilderCreate :: "event \<Rightarrow> bool" where
  "is_BuilderCreate (BuilderCreate ps) = True"
| "is_BuilderCreate e = False"

fun is_StError :: "event \<Rightarrow> bool" where
  "is_StError (StError m) = True"
| "is_StError e = False"

definition fetches :: "app_state \<Rightarrow> app_state \<Rightarrow> nat" where
  "fetches s s' = length (filter is_ExecSql (new_events s s'))"

text \<open>Both acquisition paths fail, and the message of the failure that ends the second.\<close>

definition fallback_result :: "env \<Rightarrow> string + session" where
  "fallback_result en =
     (case connection_parameters en of
        Inl e \<Rightarrow> Inl e
      | Inr ps \<Rightarrow> builder_create en ps)"

definition both_paths_fail :: "env \<Rightarrow> bool" where
  "both_paths_fail en = (isl (get_active_session en) \<and> isl (fallback_result en))"

subsection \<open>Example environments and states\<close>

definition secrets_complete :: "string \<Rightarrow> string \<Rightarrow> string + string" where
  "secrets_complete section k = Inr (''value of '' @ k)"

definition secrets_missing :: "string \<Rightarrow> string \<Rightarrow> string + string" where
  "secrets_missing section k = Inl (''no secret '' @ k)"

definition frame_hit :: dataframe where
  "frame_hit = \<lparr>df_columns = [''ID'', ''NAME''], df_rows = [[CStr ''c1'', CStr ''Vivi'']]\<rparr>"

definition frame_zero_rows :: dataframe where
  "frame_zero_rows = \<lparr>df_columns = [''ID'', ''NAME''], df_rows = []\<rparr>"

definition env_active :: env where
  "env_active =
     \<lparr>get_active_session = Inr (SessionHandle 1),
      st_secrets = secrets_missing,
      builder_create = (\<lambda>ps. Inl ''unreachable host''),
      session_sql = (\<lambda>h q. Inr frame_hit),
      str_lower = ascii_lower\<rparr>"

definition env_fallback :: env where
  "env_fallback =
     \<lparr>get_active_session = Inl ''no active session'',
      st_secrets = secrets_complete,
      builder_create = (\<lambda>ps. Inr (SessionHandle 2)),
      session_sql = (\<lambda>h q. Inr frame_hit),
      str_lower = ascii_lower\<rparr>"

definition env_down :: env where
  "env_down =
     \<lparr>get_active_session = Inl ''no active session'',
      st_secrets = secrets_complete,
      builder_create = (\<lambda>ps. Inl ''unreachable host''),
      session_sql = (\<lambda>h q. Inr frame_hit),
      str_lower = ascii_lower\<rparr>"

definition env_no_secrets :: env where
  "env_no_secrets =
     \<lparr>get_active_session = Inl ''no active session'',
      st_secrets = secrets_missing,
      builder_create = (\<lambda>ps. Inr (SessionHandle 2)),
      session_sql = (\<lambda>h q. Inr frame_hit),
      str_lower = ascii_lower\<rparr>"

definition env_sql_fails :: env where
  "env_sql_fails =
     \<lparr>get_active_session = Inr (SessionHandle 1),
      st_secrets = secrets_missing,
      builder_create = (\<lambda>ps. Inl ''unreachable host''),
      session_sql = (\<lambda>h q. Inl ''SQL compilation error''),
      str_lower = ascii_lower\<rparr>"

definition env_zero_rows :: env where
  "env_zero_rows =
     \<lparr>get_active_session = Inr (SessionHandle 1),
      st_secrets = secrets_missing,
      builder_create = (\<lambda>ps. Inl ''unreachable host''),
      session_sql = (\<lambda>h q. Inr frame_zero_rows),
      str_lower = ascii_lower\<rparr>"

definition env_no_columns :: env where
  "env_no_columns =
     \<lparr>get_active_session = Inr (SessionHandle 1),
      st_secrets = secrets_missing,
      builder_create = (\<lambda>ps. Inl ''unreachable host''),
      session_sql = (\<lambda>h q. Inr pd_DataFrame),
      str_lower = ascii_lower\<rparr>"

definition state0 :: app_state where
  "state0 = \<lparr>cache = Map.empty, trace = [], selected_card_id = None\<rparr>"

text \<open>A state in which all three operations have an entry, inserted at the given time.\<close>

definition state_cached :: "real \<Rightarrow> app_state" where
  "state_cached t =
     \<lparr>cache =
        [Key_search_cards ''vivi'' ''final fantasy'' \<mapsto> (frame_hit, t),
         Key_get_card_prices ''ecc1027a-8c07-44a0-bdde-fa2844cff694'' \<mapsto> (frame_hit, t),
         Key_get_price_after_launch \<mapsto> (frame_hit, t)],
      trace = [],
      selected_card_id = Some ''ecc1027a-8c07-44a0-bdde-fa2844cff694''\<rparr>"

section \<open>Properties\<close>

subsection \<open>Basic facts\<close>

lemma cache_emit [simp]: "cache (emit e s) = cache s"
  by (simp add: emit_def)

lemma trace_emit [simp]: "trace (emit e s) = trace s @ [e]"
  by (simp add: emit_def)

lemma selected_emit [simp]: "selected_card_id (emit e s) = selected_card_id s"
  by (simp add: emit_def)

lemma new_events_append [simp]: "trace s' = trace s @ evs \<Longrightarrow> new_events s s' = evs"
  by (simp add: new_events_def)

lemma new_events_same [simp]: "new_events s s = []"
  by (simp add: new_events_def)

text \<open>What session acquisition does to the state, path by path.\<close>

lemma session_active:
  "get_active_session en = Inr h \<Longrightarrow>
   get_snowflake_session en s =
     (Inr (h, ''Connected using active Snowflake session''), emit GetActiveSession s)"
  by (simp add: get_snowflake_session_def)

lemma session_fallback:
  "get_active_session en = Inl e \<Longrightarrow> connection_parameters en = Inr ps \<Longrightarrow>
   builder_create en ps = Inr h \<Longrightarrow>
   get_snowflake_session en s =
     (Inr (h, ''Connected to Snowflake using credentials''),
      emit (BuilderCreate ps) (emit GetActiveSession s))"
  by (simp add: get_snowflake_session_def)

lemma session_no_config:
  "get_active_session en = Inl e \<Longrightarrow> connection_parameters en = Inl e' \<Longrightarrow>
   get_snowflake_session en s =
     (Inl StopException,
      emit StStop (emit (StError (''Failed to connect to Snowflake: '' @ e'))
        (emit GetActiveSession s)))"
  by (simp add: get_snowflake_session_def connect_failed_def)

lemma session_create_fails:
  "get_active_session en = Inl e \<Longrightarrow> connection_parameters en = Inr ps \<Longrightarrow>
   builder_create en ps = Inl e' \<Longrightarrow>
   get_snowflake_session en s =
     (Inl StopException,
      emit StStop (emit (StError (''Failed to connect to Snowflake: '' @ e'))
        (emit (BuilderCreate ps) (emit GetActiveSession s))))"
  by (simp add: get_snowflake_session_def connect_failed_def)

lemma session_shape:
  "\<exists>evs. trace (snd (get_snowflake_session en s)) = trace s @ GetActiveSession # evs \<and>
     cache (snd (get_snowflake_session en s)) = cache s \<and>
     selected_card_id (snd (get_snowflake_session en s)) = selected_card_id s \<and>
     filter is_ExecSql evs = [] \<and>
     (fst (get_snowflake_session en s) = Inl StopException \<or>
      (\<exists>h l. fst (get_snowflake_session en s) = Inr (h, l) \<and> filter is_StError evs = []))"
proof (cases "get_active_session en")
  case (Inr h)
  then show ?thesis by (simp add: session_active)
next
  case (Inl e)
  show ?thesis
  proof (cases "connection_parameters en")
    case (Inl e')
    with \<open>get_active_session en = Inl e\<close> show ?thesis by (simp add: session_no_config)
  next
    case (Inr ps)
    with \<open>get_active_session en = Inl e\<close> show ?thesis
      by (cases "builder_create en ps") (simp_all add: session_fallback session_create_fails)
  qed
qed

lemma search_cards_body_eq:
  "search_cards_body en t1 t2 = run_query en (search_query t1 t2) ''Error searching cards: ''"
  by (rule ext) (simp add: search_cards_body_def run_query_def Let_def split: prod.splits sum.splits)

lemma get_card_prices_body_eq:
  "get_card_prices_body en card_id = run_query en (prices_query card_id) ''Error querying data: ''"
  by (rule ext) (simp add: get_card_prices_body_def run_query_def Let_def split: prod.splits sum.splits)

lemma get_price_after_launch_body_eq:
  "get_price_after_launch_body en =
     run_query en launch_query ''Error querying price after launch data: ''"
  by (rule ext)
    (simp add: get_price_after_launch_body_def run_query_def Let_def split: prod.splits sum.splits)

lemma run_call_eq:
  "run_call en c now = cache_data 86400 (key_of c) (run_query en (query_of c) (error_prefix c)) now"
  by (cases c)
    (simp_all add: search_cards_def get_card_prices_def get_price_after_launch_def
      search_cards_body_eq get_card_prices_body_eq get_price_after_launch_body_eq)

text \<open>The body on each outcome of acquisition and execution.\<close>

lemma run_query_stopped:
  "fst (get_snowflake_session en s) = Inl x \<Longrightarrow>
   run_query en q p s = (Inl x, snd (get_snowflake_session en s))"
  by (cases "get_snowflake_session en s") (auto simp: run_query_def split: sum.splits)

lemma run_query_ok:
  "fst (get_snowflake_session en s) = Inr (h, l) \<Longrightarrow> session_sql en h q = Inr df \<Longrightarrow>
   run_query en q p s = (Inr df, emit (ExecSql h q) (snd (get_snowflake_session en s)))"
  by (cases "get_snowflake_session en s") (auto simp: run_query_def split: sum.splits)

lemma run_query_failed:
  "fst (get_snowflake_session en s) = Inr (h, l) \<Longrightarrow> session_sql en h q = Inl e \<Longrightarrow>
   run_query en q p s =
     (Inr pd_DataFrame,
      emit (StError (p @ e)) (emit (ExecSql h q) (snd (get_snowflake_session en s))))"
  by (cases "get_snowflake_session en s") (auto simp: run_query_def split: sum.splits)

lemma run_query_shape:
  "\<exists>evs. trace (snd (run_query en q p s)) = trace s @ GetActiveSession # evs \<and>
     cache (snd (run_query en q p s)) = cache s \<and>
     selected_card_id (snd (run_query en q p s)) = selected_card_id s \<and>
     length (filter is_ExecSql evs) \<le> 1 \<and>
     (fst (run_query en q p s) = Inl StopException \<and> filter is_ExecSql evs = [] \<or>
      (\<exists>df. fst (run_query en q p s) = Inr df))"
proof -
  obtain evs where evs:
    "trace (snd (get_snowflake_session en s)) = trace s @ GetActiveSession # evs"
    "cache (snd (get_snowflake_session en s)) = cache s"
    "selected_card_id (snd (get_snowflake_session en s)) = selected_card_id s"
    "filter is_ExecSql evs = []"
    "fst (get_snowflake_session en s) = Inl StopException \<or>
      (\<exists>h l. fst (get_snowflake_session en s) = Inr (h, l))"
    using session_shape [of en s] by blast
  from evs(5) show ?thesis
  proof
    assume "fst (get_snowflake_session en s) = Inl StopException"
    with evs show ?thesis by (simp add: run_query_stopped)
  next
    assume "\<exists>h l. fst (get_snowflake_session en s) = Inr (h, l)"
    then obtain h l where hl: "fst (get_snowflake_session en s) = Inr (h, l)" by blast
    show ?thesis
    proof (cases "session_sql en h q")
      case (Inl e)
      with hl evs show ?thesis by (simp add: run_query_failed)
    next
      case (Inr df)
      with hl evs show ?thesis by (simp add: run_query_ok)
    qed
  qed
qed

subsection \<open>The cache in front of a body\<close>

lemma cache_data_hit:
  "cache_lookup ttl key now s = Some df \<Longrightarrow> cache_data ttl key f now s = (Inr df, s)"
  by (simp add: cache_data_def)

lemma cache_data_miss_returns:
  "cache_lookup ttl key now s = None \<Longrightarrow> fst (f s) = Inr df \<Longrightarrow>
   cache_data ttl key f now s =
     (Inr df, (snd (f s))\<lparr>cache := (cache (snd (f s)))(key \<mapsto> (df, now))\<rparr>)"
  by (cases "f s") (simp add: cache_data_def)

lemma cache_data_miss_raises:
  "cache_lookup ttl key now s = None \<Longrightarrow> fst (f s) = Inl x \<Longrightarrow>
   cache_data ttl key f now s = (Inl x, snd (f s))"
  by (cases "f s") (simp add: cache_data_def)

lemma cache_lookup_Some:
  "cache_lookup ttl key now s = Some df \<longleftrightarrow>
   (\<exists>inserted. cache s key = Some (df, inserted) \<and> now - inserted < ttl)"
  by (auto simp: cache_lookup_def split: option.splits)

lemma cache_lookup_None:
  "cache_lookup ttl key now s = None \<longleftrightarrow>
   (cache s key = None \<or> (\<exists>df inserted. cache s key = Some (df, inserted) \<and> \<not> now - inserted < ttl))"
  by (auto simp: cache_lookup_def split: option.splits)

lemma cache_lookup_trace [simp]:
  "cache_lookup ttl key now (s\<lparr>trace := t\<rparr>) = cache_lookup ttl key now s"
  by (simp add: cache_lookup_def)

text \<open>The four ways a call of an operation can go.\<close>

lemma call_hit:
  "cache_lookup 86400 (key_of c) now s = Some df \<Longrightarrow> run_call en c now s = (Inr df, s)"
  by (simp add: run_call_eq cache_data_hit)

lemma call_miss_stopped:
  "cache_lookup 86400 (key_of c) now s = None \<Longrightarrow>
   fst (get_snowflake_session en s) = Inl x \<Longrightarrow>
   run_call en c now s = (Inl x, snd (get_snowflake_session en s))"
  by (simp add: run_call_eq cache_data_miss_raises run_query_stopped)

lemma call_miss_ok:
  "cache_lookup 86400 (key_of c) now s = None \<Longrightarrow>
   fst (get_snowflake_session en s) = Inr (h, l) \<Longrightarrow>
   session_sql en h (query_of c) = Inr df \<Longrightarrow>
   run_call en c now s =
     (Inr df,
      (emit (ExecSql h (query_of c)) (snd (get_snowflake_session en s)))
        \<lparr>cache := (cache s)(key_of c \<mapsto> (df, now))\<rparr>)"
  using session_shape [of en s]
  by (auto simp: run_call_eq cache_data_miss_returns run_query_ok)

lemma call_miss_failed:
  "cache_lookup 86400 (key_of c) now s = None \<Longrightarrow>
   fst (get_snowflake_session en s) = Inr (h, l) \<Longrightarrow>
   session_sql en h (query_of c) = Inl e \<Longrightarrow>
   run_call en c now s =
     (Inr pd_DataFrame,
      (emit (StError (error_prefix c @ e))
         (emit (ExecSql h (query_of c)) (snd (get_snowflake_session en s))))
        \<lparr>cache := (cache s)(key_of c \<mapsto> (pd_DataFrame, now))\<rparr>)"
  using session_shape [of en s]
  by (auto simp: run_call_eq cache_data_miss_returns run_query_failed)

text \<open>
  A summary of one call: the trace only grows, by at most one execution of SQL; a call
  that raises stores nothing and executes nothing; a call that returns leaves an entry
  with the result under its key, inserted no earlier than a hit allows.
\<close>

lemma call_summary:
  assumes "run_call en c now s = (r, s')"
  shows "\<exists>evs. trace s' = trace s @ evs \<and> length (filter is_ExecSql evs) \<le> 1 \<and>
     (cache_lookup 86400 (key_of c) now s \<noteq> None \<or>
        r = Inl StopException \<and> cache s' = cache s \<and> filter is_ExecSql evs = [] \<or>
        (\<exists>df. r = Inr df \<and> cache s' = (cache s)(key_of c \<mapsto> (df, now)))) \<and>
     (\<forall>df. cache_lookup 86400 (key_of c) now s = Some df \<longrightarrow> r = Inr df \<and> s' = s)"
proof (cases "cache_lookup 86400 (key_of c) now s")
  case (Some df)
  with assms show ?thesis by (simp add: call_hit)
next
  case None
  obtain evs where evs:
    "trace (snd (get_snowflake_session en s)) = trace s @ GetActiveSession # evs"
    "cache (snd (get_snowflake_session en s)) = cache s"
    "filter is_ExecSql evs = []"
    "fst (get_snowflake_session en s) = Inl StopException \<or>
      (\<exists>h l. fst (get_snowflake_session en s) = Inr (h, l))"
    using session_shape [of en s] by blast
  from evs(4) show ?thesis
  proof
    assume "fst (get_snowflake_session en s) = Inl StopException"
    with None assms evs show ?thesis by (auto simp: call_miss_stopped)
  next
    assume "\<exists>h l. fst (get_snowflake_session en s) = Inr (h, l)"
    then obtain h l where hl: "fst (get_snowflake_session en s) = Inr (h, l)" by blast
    show ?thesis
    proof (cases "session_sql en h (query_of c)")
      case (Inl e)
      with hl None assms evs show ?thesis by (auto simp: call_miss_failed)
    next
      case (Inr df)
      with hl None assms evs show ?thesis by (auto simp: call_miss_ok)
    qed
  qed
qed

subsection \<open>Hits within the time to live\<close>

lemmas eval_defs =
  run_call_eq cache_data_def cache_lookup_def run_query_def get_snowflake_session_def
  connect_failed_def connection_parameters_def emit_def new_events_def fetches_def
  state0_def env_active_def env_fallback_def env_down_def env_no_secrets_def
  env_sql_fails_def env_zero_rows_def env_no_columns_def secrets_complete_def
  secrets_missing_def pd_DataFrame_def df_empty_def frame_hit_def frame_zero_rows_def
  fallback_result_def both_paths_fail_def

text \<open>
  C3. Two calls of the same operation with the same parameters, the second less than
  86400 seconds after the first, execute SQL at most once between them, whatever the
  environment answers. When the first call returned a result after a miss, or returned
  a result from an entry that is still unexpired at the second call, the second call is
  a pure hit: it returns the same result and leaves the whole state as it was, so it
  adds no event to the trace (no session is asked for, no SQL is sent).
\<close>

theorem second_call_is_cache_hit:
  assumes "run_call en1 c t1 s0 = (r1, s1)"
    and "run_call en2 c t2 s1 = (r2, s2)"
    and "t2 - t1 < 86400"
  shows "fetches s0 s2 \<le> 1 \<and>
     (\<forall>df. r1 = Inr df \<and> cache_lookup 86400 (key_of c) t1 s0 = None \<longrightarrow>
        r2 = Inr df \<and> s2 = s1) \<and>
     (\<forall>df. r1 = Inr df \<and> cache_lookup 86400 (key_of c) t2 s0 \<noteq> None \<longrightarrow>
        r2 = Inr df \<and> s2 = s1)"
proof -
  obtain evs1 where e1:
    "trace s1 = trace s0 @ evs1" "length (filter is_ExecSql evs1) \<le> 1"
    "cache_lookup 86400 (key_of c) t1 s0 \<noteq> None \<or>
        r1 = Inl StopException \<and> cache s1 = cache s0 \<and> filter is_ExecSql evs1 = [] \<or>
        (\<exists>df. r1 = Inr df \<and> cache s1 = (cache s0)(key_of c \<mapsto> (df, t1)))"
    "\<forall>df. cache_lookup 86400 (key_of c) t1 s0 = Some df \<longrightarrow> r1 = Inr df \<and> s1 = s0"
    using call_summary [OF assms(1)] by blast
  obtain evs2 where e2:
    "trace s2 = trace s1 @ evs2" "length (filter is_ExecSql evs2) \<le> 1"
    "cache_lookup 86400 (key_of c) t2 s1 \<noteq> None \<or>
        r2 = Inl StopException \<and> cache s2 = cache s1 \<and> filter is_ExecSql evs2 = [] \<or>
        (\<exists>df. r2 = Inr df \<and> cache s2 = (cache s1)(key_of c \<mapsto> (df, t2)))"
    "\<forall>df. cache_lookup 86400 (key_of c) t2 s1 = Some df \<longrightarrow> r2 = Inr df \<and> s2 = s1"
    using call_summary [OF assms(2)] by blast
  have tr: "fetches s0 s2 = length (filter is_ExecSql evs1) + length (filter is_ExecSql evs2)"
    using e1(1) e2(1) by (simp add: fetches_def new_events_def)
  \<comment> \<open>After a miss that returned, the entry is the result, inserted at the first call.\<close>
  have miss: "r2 = Inr df \<and> s2 = s1 \<and> evs2 = []"
    if "r1 = Inr df" "cache_lookup 86400 (key_of c) t1 s0 = None" for df
  proof -
    from that e1(3) have "cache s1 (key_of c) = Some (df, t1)" by auto
    with assms(3) have "cache_lookup 86400 (key_of c) t2 s1 = Some df"
      by (simp add: cache_lookup_Some)
    with e2(1,4) show ?thesis by auto
  qed
  \<comment> \<open>After a hit, nothing has changed; the entry may have expired since.\<close>
  have hit: "s1 = s0 \<and> evs1 = [] \<and> r1 = Inr df"
    if "cache_lookup 86400 (key_of c) t1 s0 = Some df" for df
    using that e1(1,4) by auto
  have still: "r2 = Inr df \<and> s2 = s1"
    if "r1 = Inr df" "cache_lookup 86400 (key_of c) t2 s0 \<noteq> None" for df
  proof (cases "cache_lookup 86400 (key_of c) t1 s0")
    case None
    with that(1) miss show ?thesis by blast
  next
    case (Some df')
    with hit have h: "s1 = s0" "r1 = Inr df'" by auto
    with that(1) have "df' = df" by simp
    from Some obtain i where "cache s0 (key_of c) = Some (df', i)"
      by (auto simp: cache_lookup_Some)
    with that(2) have "cache_lookup 86400 (key_of c) t2 s0 = Some df'"
      by (auto simp: cache_lookup_def split: if_splits)
    with h \<open>df' = df\<close> e2(4) show ?thesis by auto
  qed
  have count: "fetches s0 s2 \<le> 1"
  proof (cases "cache_lookup 86400 (key_of c) t1 s0")
    case (Some df)
    with hit have "evs1 = []" by blast
    with tr e2(2) show ?thesis by simp
  next
    case None
    with e1(3) consider "filter is_ExecSql evs1 = []" | df where "r1 = Inr df" by blast
    then show ?thesis
    proof cases
      case 1
      with tr e2(2) show ?thesis by simp
    next
      case 2
      with None miss have "evs2 = []" by blast
      with tr e1(2) show ?thesis by simp
    qed
  qed
  from count miss still show ?thesis by blast
qed

theorem second_call_is_cache_hit_witness:
  "(3600::real) - 0 < 86400 \<and>
   cache_lookup 86400 (key_of (SearchCards ''vivi'' ''final'')) 0 state0 = None \<and>
   fst (run_call env_active (SearchCards ''vivi'' ''final'') 0 state0) = Inr frame_hit \<and>
   run_call env_down (SearchCards ''vivi'' ''final'') 3600
       (snd (run_call env_active (SearchCards ''vivi'' ''final'') 0 state0)) =
     (Inr frame_hit, snd (run_call env_active (SearchCards ''vivi'' ''final'') 0 state0)) \<and>
   fetches state0 (snd (run_call env_active (SearchCards ''vivi'' ''final'') 0 state0)) = 1"
proof -
  let ?c = "SearchCards ''vivi'' ''final''"
  let ?first = "run_call env_active ?c 0 state0"
  let ?second = "run_call env_down ?c 3600 (snd ?first)"
  have t: "(3600::real) - 0 < 86400" by simp
  have m: "cache_lookup 86400 (key_of ?c) 0 state0 = None"
    by (simp add: eval_defs)
  have r: "fst ?first = Inr frame_hit"
    by (simp add: eval_defs)
  have f: "fetches state0 (snd ?first) = 1"
    by (simp add: eval_defs)
  have "?first = (fst ?first, snd ?first)" "?second = (fst ?second, snd ?second)"
    by simp_all
  from second_call_is_cache_hit [OF this t] r m
  have "fst ?second = Inr frame_hit \<and> snd ?second = snd ?first" by blast
  then have "?second = (Inr frame_hit, snd ?first)"
    by (metis prod.collapse)
  with t m r f show ?thesis by blast
qed

lemma call_miss_runs_body:
  assumes "cache_lookup 86400 (key_of c) now s = None"
  shows "\<exists>evs. trace (snd (run_call en c now s)) = trace s @ GetActiveSession # evs"
proof -
  let ?f = "run_query en (query_of c) (error_prefix c)"
  obtain evs where evs: "trace (snd (?f s)) = trace s @ GetActiveSession # evs"
    using run_query_shape [of en "query_of c" "error_prefix c" s] by blast
  show ?thesis
  proof (cases "fst (?f s)")
    case (Inl x)
    with assms evs show ?thesis by (simp add: run_call_eq cache_data_miss_raises)
  next
    case (Inr df)
    with assms evs show ?thesis by (simp add: run_call_eq cache_data_miss_returns)
  qed
qed

text \<open>
  C7. The three operations carry the same time to live, 86400 seconds (24 hours). An
  entry stored under the key of a call is served exactly while
  \<open>now - insertion timestamp < 86400\<close>: then the call returns the stored result and
  changes nothing. Otherwise the call is a miss: the function body runs, which shows
  in the trace as a request for the ambient session. In particular a read at
  \<open>insertion + 86400 - \<epsilon>\<close> is a hit and a read at \<open>insertion + 86400 + \<epsilon>\<close> is a miss,
  for every \<open>\<epsilon> > 0\<close>; the test is made when the entry is read.
\<close>

theorem entry_valid_while_younger_than_ttl:
  assumes "cache s (key_of c) = Some (df, inserted)"
  shows "(86400::real) = 24 * 60 * 60 \<and>
     (now - inserted < 86400 \<longrightarrow> run_call en c now s = (Inr df, s)) \<and>
     (\<not> now - inserted < 86400 \<longrightarrow>
        (\<exists>evs. trace (snd (run_call en c now s)) = trace s @ GetActiveSession # evs)) \<and>
     (\<forall>\<epsilon>>0. run_call en c (inserted + 86400 - \<epsilon>) s = (Inr df, s) \<and>
        (\<exists>evs. trace (snd (run_call en c (inserted + 86400 + \<epsilon>) s)) =
           trace s @ GetActiveSession # evs))"
proof -
  have hit: "run_call en c t s = (Inr df, s)" if "t - inserted < 86400" for t
    using that assms by (simp add: call_hit cache_lookup_Some)
  have miss: "\<exists>evs. trace (snd (run_call en c t s)) = trace s @ GetActiveSession # evs"
    if "\<not> t - inserted < 86400" for t
  proof -
    from that assms have "cache_lookup 86400 (key_of c) t s = None"
      by (simp add: cache_lookup_def)
    then show ?thesis by (rule call_miss_runs_body)
  qed
  have "run_call en c (inserted + 86400 - \<epsilon>) s = (Inr df, s)" if "0 < \<epsilon>" for \<epsilon>
    using that by (intro hit) simp
  moreover have "\<exists>evs. trace (snd (run_call en c (inserted + 86400 + \<epsilon>) s)) =
      trace s @ GetActiveSession # evs" if "0 < \<epsilon>" for \<epsilon>
    using that by (intro miss) simp
  ultimately show ?thesis using hit miss by simp
qed

theorem entry_valid_while_younger_than_ttl_witness:
  "cache (state_cached 1000) (key_of GetPriceAfterLaunch) = Some (frame_hit, 1000) \<and>
   (0::real) < 1 \<and> (87399::real) - 1000 < 86400 \<and> \<not> (87401::real) - 1000 < 86400 \<and>
   run_call env_active GetPriceAfterLaunch 87399 (state_cached 1000) =
     (Inr frame_hit, state_cached 1000) \<and>
   (\<exists>evs. trace (snd (run_call env_active GetPriceAfterLaunch 87401 (state_cached 1000))) =
      trace (state_cached 1000) @ GetActiveSession # evs) \<and>
   run_call env_down GetPriceAfterLaunch (1000 + 86400 - 1) (state_cached 1000) =
     (Inr frame_hit, state_cached 1000) \<and>
   (\<exists>evs. trace (snd (run_call env_down GetPriceAfterLaunch (1000 + 86400 + 1)
        (state_cached 1000))) = trace (state_cached 1000) @ GetActiveSession # evs)"
proof -
  have c: "cache (state_cached 1000) (key_of GetPriceAfterLaunch) = Some (frame_hit, 1000)"
    by (simp add: state_cached_def)
  have n: "(0::real) < 1" "(87399::real) - 1000 < 86400" "\<not> (87401::real) - 1000 < 86400"
    by simp_all
  from entry_valid_while_younger_than_ttl [OF c, of 87399 env_active] n(2)
  have h: "run_call env_active GetPriceAfterLaunch 87399 (state_cached 1000) =
      (Inr frame_hit, state_cached 1000)"
    by blast
  from entry_valid_while_younger_than_ttl [OF c, of 87401 env_active] n(3)
  have "\<exists>evs. trace (snd (run_call env_active GetPriceAfterLaunch 87401 (state_cached 1000))) =
      trace (state_cached 1000) @ GetActiveSession # evs"
    by blast
  moreover from entry_valid_while_younger_than_ttl [OF c, of 0 env_down] n(1)
  have "run_call env_down GetPriceAfterLaunch (1000 + 86400 - 1) (state_cached 1000) =
      (Inr frame_hit, state_cached 1000) \<and>
    (\<exists>evs. trace (snd (run_call env_down GetPriceAfterLaunch (1000 + 86400 + 1)
        (state_cached 1000))) = trace (state_cached 1000) @ GetActiveSession # evs)"
    by blast
  ultimately show ?thesis using c n h by blast
qed

subsection \<open>Clearing the cache\<close>

lemma session_result_indep:
  "fst (get_snowflake_session en s) = fst (get_snowflake_session en s')"
  by (simp add: get_snowflake_session_def connect_failed_def Let_def split: sum.splits)

lemma cache_cleared [simp]: "cache (cache_data_clear s) = Map.empty"
  by (simp add: cache_data_clear_def)

lemma lookup_cleared [simp]: "cache_lookup ttl key now (cache_data_clear s) = None"
  by (simp add: cache_lookup_def)

text \<open>
  C8. \<^verbatim>\<open>st.cache_data.clear()\<close> leaves no entry, whatever the keys and ages were. The next
  call of any operation with any parameters, at any time, is then a miss: the body runs
  (it asks for the ambient session), and when a session is acquired the query of the
  call is sent to the executor again. Afterwards the cache holds at most the entry of
  that call, and exactly that entry when the call returned: entries come back only as
  calls are made. In the script the button that clears the cache then reruns the pass.
\<close>

theorem clear_makes_every_call_a_miss:
  "cache (cache_data_clear s) = Map.empty \<and>
   (\<exists>evs. trace (snd (run_call en c now (cache_data_clear s))) =
      trace (cache_data_clear s) @ GetActiveSession # evs) \<and>
   (\<forall>h l. fst (get_snowflake_session en s) = Inr (h, l) \<longrightarrow>
      ExecSql h (query_of c) \<in>
        set (new_events (cache_data_clear s) (snd (run_call en c now (cache_data_clear s))))) \<and>
   dom (cache (snd (run_call en c now (cache_data_clear s)))) \<subseteq> {key_of c} \<and>
   (\<forall>df. fst (run_call en c now (cache_data_clear s)) = Inr df \<longrightarrow>
      cache (snd (run_call en c now (cache_data_clear s))) = [key_of c \<mapsto> (df, now)]) \<and>
   (\<forall>h l. clear_button ui \<and>
      fst (get_snowflake_session en (init_session_state s)) = Inr (h, l) \<longrightarrow>
      fst (render_pass en ui now s) = Inl RerunException \<and>
      cache (snd (render_pass en ui now s)) = Map.empty)"
proof -
  let ?s = "cache_data_clear s"
  let ?r = "run_call en c now ?s"
  have none: "cache_lookup 86400 (key_of c) now ?s = None" by simp
  have body: "\<exists>evs. trace (snd ?r) = trace ?s @ GetActiveSession # evs"
    using none by (rule call_miss_runs_body)
  have sent: "ExecSql h (query_of c) \<in> set (new_events ?s (snd ?r))"
    if "fst (get_snowflake_session en s) = Inr (h, l)" for h l
  proof -
    from that have a: "fst (get_snowflake_session en ?s) = Inr (h, l)"
      using session_result_indep [of en ?s s] by simp
    obtain evs where evs:
      "trace (snd (get_snowflake_session en ?s)) = trace ?s @ GetActiveSession # evs"
      using session_shape [of en ?s] by blast
    show ?thesis
    proof (cases "session_sql en h (query_of c)")
      case (Inl e)
      from call_miss_failed [OF none a Inl] evs show ?thesis by simp
    next
      case (Inr df)
      from call_miss_ok [OF none a Inr] evs show ?thesis by simp
    qed
  qed
  obtain r s' where rs: "?r = (r, s')" by (cases ?r)
  from call_summary [OF rs] none
  have sum: "r = Inl StopException \<and> cache s' = cache ?s \<or>
      (\<exists>df. r = Inr df \<and> cache s' = (cache ?s)(key_of c \<mapsto> (df, now)))"
    by auto
  have dom: "dom (cache (snd ?r)) \<subseteq> {key_of c}"
    using sum rs by (auto split: if_splits)
  have refill: "cache (snd ?r) = [key_of c \<mapsto> (df, now)]" if "fst ?r = Inr df" for df
    using sum rs that by auto
  have button: "fst (render_pass en ui now s) = Inl RerunException \<and>
      cache (snd (render_pass en ui now s)) = Map.empty"
    if "clear_button ui" "fst (get_snowflake_session en (init_session_state s)) = Inr (h, l)"
    for h l
    using that
    by (cases "get_snowflake_session en (init_session_state s)")
      (simp add: render_pass_def Let_def)
  from body sent dom refill button show ?thesis by simp
qed

theorem clear_makes_every_call_a_miss_witness:
  "fst (get_snowflake_session env_active (state_cached 0)) =
     Inr (SessionHandle 1, ''Connected using active Snowflake session'') \<and>
   ExecSql (SessionHandle 1) (query_of GetPriceAfterLaunch) \<in>
     set (new_events (cache_data_clear (state_cached 0))
       (snd (run_call env_active GetPriceAfterLaunch 1 (cache_data_clear (state_cached 0))))) \<and>
   fst (run_call env_active GetPriceAfterLaunch 1 (cache_data_clear (state_cached 0))) =
     Inr frame_hit \<and>
   cache (snd (run_call env_active GetPriceAfterLaunch 1 (cache_data_clear (state_cached 0)))) =
     [key_of GetPriceAfterLaunch \<mapsto> (frame_hit, 1)] \<and>
   clear_button \<lparr>search_term1_raw = ''vivi'', search_term2_raw = ''final fantasy'',
     search_button = False, clear_button = True, selected_row_id = None,
     card_id_input = None\<rparr> \<and>
   fst (get_snowflake_session env_active (init_session_state (state_cached 0))) =
     Inr (SessionHandle 1, ''Connected using active Snowflake session'') \<and>
   fst (render_pass env_active \<lparr>search_term1_raw = ''vivi'', search_term2_raw = ''final fantasy'',
     search_button = False, clear_button = True, selected_row_id = None,
     card_id_input = None\<rparr> 1 (state_cached 0)) = Inl RerunException \<and>
   cache (snd (render_pass env_active \<lparr>search_term1_raw = ''vivi'',
     search_term2_raw = ''final fantasy'', search_button = False, clear_button = True,
     selected_row_id = None, card_id_input = None\<rparr> 1 (state_cached 0))) = Map.empty"
proof -
  let ?ui = "\<lparr>search_term1_raw = ''vivi'', search_term2_raw = ''final fantasy'',
     search_button = False, clear_button = True, selected_row_id = None,
     card_id_input = None\<rparr>"
  have a: "fst (get_snowflake_session env_active (state_cached 0)) =
      Inr (SessionHandle 1, ''Connected using active Snowflake session'')"
    by (simp add: session_active env_active_def)
  have b: "fst (get_snowflake_session env_active (init_session_state (state_cached 0))) =
      Inr (SessionHandle 1, ''Connected using active Snowflake session'')"
    by (simp add: session_active env_active_def)
  have r: "fst (run_call env_active GetPriceAfterLaunch 1 (cache_data_clear (state_cached 0))) =
      Inr frame_hit"
    by (simp add: eval_defs cache_data_clear_def)
  have u: "clear_button ?ui" by simp
  from clear_makes_every_call_a_miss
    [of "state_cached 0" env_active GetPriceAfterLaunch 1 ?ui] a b r u
  show ?thesis by blast
qed

subsection \<open>Session acquisition\<close>

lemma read_secrets_Inr:
  "read_secrets sec ks = Inr ps \<Longrightarrow>
   map fst ps = ks \<and> (\<forall>(k, v) \<in> set ps. sec ''snowflake'' k = Inr v)"
proof (induction ks arbitrary: ps)
  case Nil
  then show ?case by simp
next
  case (Cons k ks)
  then show ?case by (auto split: sum.splits)
qed

lemma connection_parameters_Inr:
  assumes "connection_parameters en = Inr ps"
  shows "map fst ps = [''account'', ''user'', ''password'', ''warehouse'', ''database'', ''schema'']"
    and "\<forall>(k, v) \<in> set ps. st_secrets en ''snowflake'' k = Inr v"
  using read_secrets_Inr [OF assms [unfolded connection_parameters_def]] by blast+

text \<open>
  C4. One call of \<^verbatim>\<open>get_snowflake_session\<close> first asks for the ambient session, exactly
  once. If that succeeds it returns the handle with the label of the ambient path and
  does nothing else. If it fails and the six configuration values (account, user,
  password, warehouse, database, schema) can be read, it calls the session builder
  exactly once, with exactly these six values; if the builder succeeds it returns the
  new handle with the label of the credentials path, and no error message is shown. No
  path is tried a second time. (If a configuration value cannot be read, the fallback
  ends there: the builder is not called and the script stops.)
\<close>

theorem session_acquisition_paths:
  assumes "get_snowflake_session en s = (r, s')"
  shows "trace s' = trace s @ new_events s s' \<and>
     hd (new_events s s') = GetActiveSession \<and>
     count_list (new_events s s') GetActiveSession = 1 \<and>
     length (filter is_BuilderCreate (new_events s s')) \<le> 1 \<and>
     (\<forall>h. get_active_session en = Inr h \<longrightarrow>
        r = Inr (h, ''Connected using active Snowflake session'') \<and>
        new_events s s' = [GetActiveSession]) \<and>
     (\<forall>e ps. get_active_session en = Inl e \<and> connection_parameters en = Inr ps \<longrightarrow>
        map fst ps = [''account'', ''user'', ''password'', ''warehouse'', ''database'', ''schema''] \<and>
        (\<forall>(k, v) \<in> set ps. st_secrets en ''snowflake'' k = Inr v) \<and>
        filter is_BuilderCreate (new_events s s') = [BuilderCreate ps]) \<and>
     (\<forall>e ps h. get_active_session en = Inl e \<and> connection_parameters en = Inr ps \<and>
        builder_create en ps = Inr h \<longrightarrow>
        r = Inr (h, ''Connected to Snowflake using credentials'') \<and>
        new_events s s' = [GetActiveSession, BuilderCreate ps]) \<and>
     (\<forall>e e'. get_active_session en = Inl e \<and> connection_parameters en = Inl e' \<longrightarrow>
        r = Inl StopException \<and> filter is_BuilderCreate (new_events s s') = [])"
proof (cases "get_active_session en")
  case (Inr h)
  with assms show ?thesis by (auto simp: session_active)
next
  case primary: (Inl e)
  show ?thesis
  proof (cases "connection_parameters en")
    case (Inl e')
    with primary assms show ?thesis by (auto simp: session_no_config)
  next
    case (Inr ps)
    note cp = connection_parameters_Inr [OF Inr]
    show ?thesis
    proof (cases "builder_create en ps")
      case (Inl e')
      with primary Inr assms cp show ?thesis by (auto simp: session_create_fails)
    next
      case created: (Inr h)
      with primary Inr assms cp show ?thesis by (auto simp: session_fallback)
    qed
  qed
qed

theorem session_acquisition_paths_witness:
  "get_active_session env_active = Inr (SessionHandle 1) \<and>
   get_snowflake_session env_active state0 =
     (Inr (SessionHandle 1, ''Connected using active Snowflake session''),
      emit GetActiveSession state0) \<and>
   get_active_session env_fallback = Inl ''no active session'' \<and>
   connection_parameters env_fallback =
     Inr [(''account'', ''value of account''), (''user'', ''value of user''),
          (''password'', ''value of password''), (''warehouse'', ''value of warehouse''),
          (''database'', ''value of database''), (''schema'', ''value of schema'')] \<and>
   fst (get_snowflake_session env_fallback state0) =
     Inr (SessionHandle 2, ''Connected to Snowflake using credentials'') \<and>
   new_events state0 (snd (get_snowflake_session env_fallback state0)) =
     [GetActiveSession,
      BuilderCreate
        [(''account'', ''value of account''), (''user'', ''value of user''),
         (''password'', ''value of password''), (''warehouse'', ''value of warehouse''),
         (''database'', ''value of database''), (''schema'', ''value of schema'')]] \<and>
   get_active_session env_no_secrets = Inl ''no active session'' \<and>
   connection_parameters env_no_secrets = Inl ''no secret account'' \<and>
   fst (get_snowflake_session env_no_secrets state0) = Inl StopException"
proof -
  let ?ps = "[(''account'', ''value of account''), (''user'', ''value of user''),
          (''password'', ''value of password''), (''warehouse'', ''value of warehouse''),
          (''database'', ''value of database''), (''schema'', ''value of schema'')]"
  have a: "get_active_session env_active = Inr (SessionHandle 1)"
    by (simp add: env_active_def)
  have f: "get_active_session env_fallback = Inl ''no active session''"
    "connection_parameters env_fallback = Inr ?ps"
    "builder_create env_fallback ?ps = Inr (SessionHandle 2)"
    by (simp_all add: env_fallback_def connection_parameters_def secrets_complete_def)
  have n: "get_active_session env_no_secrets = Inl ''no active session''"
    "connection_parameters env_no_secrets = Inl ''no secret account''"
    by (simp_all add: env_no_secrets_def connection_parameters_def secrets_missing_def)
  have p: "x = (fst x, snd x)" for x :: "(exn + session \<times> string) \<times> app_state"
    by simp
  from session_acquisition_paths [OF p, of env_active state0] a
  have "fst (get_snowflake_session env_active state0) =
      Inr (SessionHandle 1, ''Connected using active Snowflake session'') \<and>
    trace (snd (get_snowflake_session env_active state0)) = trace state0 @ [GetActiveSession]"
    by simp
  then have 1: "get_snowflake_session env_active state0 =
     (Inr (SessionHandle 1, ''Connected using active Snowflake session''),
      emit GetActiveSession state0)"
    by (simp add: session_active a)
  from session_acquisition_paths [OF p, of env_fallback state0] f
  have 2: "fst (get_snowflake_session env_fallback state0) =
      Inr (SessionHandle 2, ''Connected to Snowflake using credentials'') \<and>
    new_events state0 (snd (get_snowflake_session env_fallback state0)) =
      [GetActiveSession, BuilderCreate ?ps]"
    by blast
  from session_acquisition_paths [OF p, of env_no_secrets state0] n
  have 3: "fst (get_snowflake_session env_no_secrets state0) = Inl StopException"
    by blast
  from a f n 1 2 3 show ?thesis by blast
qed

subsection \<open>When no session can be had\<close>

lemma both_paths_fail_stops:
  assumes "both_paths_fail en"
  shows "\<exists>e evs. fallback_result en = Inl e \<and>
     get_snowflake_session en s =
       (Inl StopException,
        s\<lparr>trace := trace s @ GetActiveSession # evs @
          [StError (''Failed to connect to Snowflake: '' @ e), StStop]\<rparr>) \<and>
     filter is_ExecSql evs = []"
proof -
  from assms obtain e0 e where f: "get_active_session en = Inl e0" "fallback_result en = Inl e"
    by (auto simp: both_paths_fail_def isl_def)
  show ?thesis
  proof (cases "connection_parameters en")
    case (Inl e')
    with f have "e' = e" by (simp add: fallback_result_def)
    with f Inl have "get_snowflake_session en s =
       (Inl StopException,
        s\<lparr>trace := trace s @ GetActiveSession # [] @
          [StError (''Failed to connect to Snowflake: '' @ e), StStop]\<rparr>)"
      by (simp add: session_no_config emit_def)
    with f show ?thesis by (intro exI [of _ e] exI [of _ "[]"]) simp
  next
    case (Inr ps)
    with f have "builder_create en ps = Inl e" by (simp add: fallback_result_def)
    with f Inr have "get_snowflake_session en s =
       (Inl StopException,
        s\<lparr>trace := trace s @ GetActiveSession # [BuilderCreate ps] @
          [StError (''Failed to connect to Snowflake: '' @ e), StStop]\<rparr>)"
      by (simp add: session_create_fails emit_def)
    with f show ?thesis by (intro exI [of _ e] exI [of _ "[BuilderCreate ps]"]) simp
  qed
qed

lemma fetches_append:
  "trace s' = trace s @ evs \<Longrightarrow> fetches s s' = length (filter is_ExecSql evs)"
  by (simp add: fetches_def)

lemma init_session_state_keeps [simp]:
  "trace (init_session_state s) = trace s" "cache (init_session_state s) = cache s"
  by (simp_all add: init_session_state_def split: option.splits)

text \<open>
  C5. When the ambient session is unavailable and the fallback fails too (a
  configuration value cannot be read, or the builder raises), \<^verbatim>\<open>get_snowflake_session\<close>
  shows the message "Failed to connect to Snowflake: ..." with the text of the failure
  and stops the script. A call of any query operation then executes no SQL and leaves
  the cache exactly as it was; unless it is served from the cache, it ends with the
  stop and with the error message shown. The render pass ends with the stop as well,
  with no SQL executed and the cache unchanged.
\<close>

theorem no_session_no_fetch:
  assumes "both_paths_fail en"
  shows "(\<exists>e evs. fallback_result en = Inl e \<and>
        fst (get_snowflake_session en s) = Inl StopException \<and>
        new_events s (snd (get_snowflake_session en s)) =
          GetActiveSession # evs @
            [StError (''Failed to connect to Snowflake: '' @ e), StStop]) \<and>
     cache (snd (run_call en c now s)) = cache s \<and>
     fetches s (snd (run_call en c now s)) = 0 \<and>
     (cache_lookup 86400 (key_of c) now s = None \<longrightarrow>
        fst (run_call en c now s) = Inl StopException \<and>
        last (trace (snd (run_call en c now s))) = StStop \<and>
        filter is_StError (new_events s (snd (run_call en c now s))) \<noteq> []) \<and>
     fst (render_pass en ui now s) = Inl StopException \<and>
     cache (snd (render_pass en ui now s)) = cache s \<and>
     fetches s (snd (render_pass en ui now s)) = 0"
proof -
  have stop: "\<exists>e evs. fallback_result en = Inl e \<and>
     get_snowflake_session en t =
       (Inl StopException,
        t\<lparr>trace := trace t @ GetActiveSession # evs @
          [StError (''Failed to connect to Snowflake: '' @ e), StStop]\<rparr>) \<and>
     filter is_ExecSql evs = []" for t
    using assms by (rule both_paths_fail_stops)
  from stop [of s] obtain e evs where s:
    "fallback_result en = Inl e"
    "get_snowflake_session en s =
       (Inl StopException,
        s\<lparr>trace := trace s @ GetActiveSession # evs @
          [StError (''Failed to connect to Snowflake: '' @ e), StStop]\<rparr>)"
    "filter is_ExecSql evs = []"
    by blast
  have acquire: "\<exists>e evs. fallback_result en = Inl e \<and>
        fst (get_snowflake_session en s) = Inl StopException \<and>
        new_events s (snd (get_snowflake_session en s)) =
          GetActiveSession # evs @
            [StError (''Failed to connect to Snowflake: '' @ e), StStop]"
    using s by (intro exI [of _ e] exI [of _ evs]) simp
  have call: "cache (snd (run_call en c now s)) = cache s \<and>
     fetches s (snd (run_call en c now s)) = 0 \<and>
     (cache_lookup 86400 (key_of c) now s = None \<longrightarrow>
        fst (run_call en c now s) = Inl StopException \<and>
        last (trace (snd (run_call en c now s))) = StStop \<and>
        filter is_StError (new_events s (snd (run_call en c now s))) \<noteq> [])"
  proof (cases "cache_lookup 86400 (key_of c) now s")
    case (Some df)
    then show ?thesis by (simp add: call_hit fetches_def)
  next
    case None
    from s(2) have "fst (get_snowflake_session en s) = Inl StopException" by simp
    from call_miss_stopped [OF None this] s None show ?thesis
      by (simp add: fetches_append)
  qed
  from stop [of "init_session_state s"] obtain e' evs' where i:
    "get_snowflake_session en (init_session_state s) =
       (Inl StopException,
        (init_session_state s)\<lparr>trace := trace s @ GetActiveSession # evs' @
          [StError (''Failed to connect to Snowflake: '' @ e'), StStop]\<rparr>)"
    "filter is_ExecSql evs' = []"
    by auto
  then have pass: "fst (render_pass en ui now s) = Inl StopException \<and>
     cache (snd (render_pass en ui now s)) = cache s \<and>
     fetches s (snd (render_pass en ui now s)) = 0"
    by (simp add: render_pass_def fetches_append)
  from acquire call pass show ?thesis by blast
qed

theorem no_session_no_fetch_witness:
  "both_paths_fail env_down \<and>
   cache_lookup 86400 (key_of (GetCardPrices ''abc'')) 5 state0 = None \<and>
   run_call env_down (GetCardPrices ''abc'') 5 state0 =
     (Inl StopException,
      state0\<lparr>trace :=
        [GetActiveSession,
         BuilderCreate
           [(''account'', ''value of account''), (''user'', ''value of user''),
            (''password'', ''value of password''), (''warehouse'', ''value of warehouse''),
            (''database'', ''value of database''), (''schema'', ''value of schema'')],
         StError ''Failed to connect to Snowflake: unreachable host'', StStop]\<rparr>) \<and>
   both_paths_fail env_no_secrets \<and>
   fst (render_pass env_no_secrets \<lparr>search_term1_raw = ''vivi'',
     search_term2_raw = ''final fantasy'', search_button = False, clear_button = False,
     selected_row_id = None, card_id_input = None\<rparr> 5 (state_cached 0)) = Inl StopException \<and>
   cache (snd (render_pass env_no_secrets \<lparr>search_term1_raw = ''vivi'',
     search_term2_raw = ''final fantasy'', search_button = False, clear_button = False,
     selected_row_id = None, card_id_input = None\<rparr> 5 (state_cached 0))) =
     cache (state_cached 0)"
proof -
  have d: "both_paths_fail env_down" "both_paths_fail env_no_secrets"
    by (simp_all add: eval_defs)
  have m: "cache_lookup 86400 (key_of (GetCardPrices ''abc'')) 5 state0 = None"
    by (simp add: eval_defs)
  have r: "run_call env_down (GetCardPrices ''abc'') 5 state0 =
     (Inl StopException,
      state0\<lparr>trace :=
        [GetActiveSession,
         BuilderCreate
           [(''account'', ''value of account''), (''user'', ''value of user''),
            (''password'', ''value of password''), (''warehouse'', ''value of warehouse''),
            (''database'', ''value of database''), (''schema'', ''value of schema'')],
         StError ''Failed to connect to Snowflake: unreachable host'', StStop]\<rparr>)"
    using no_session_no_fetch [OF d(1), of state0 "GetCardPrices ''abc''" 5] m
    by (simp add: eval_defs)
  from no_session_no_fetch [OF d(2)] d m r show ?thesis by blast
qed

subsection \<open>The render pass\<close>

lemma call_extends:
  "\<exists>evs. trace (snd (run_call en c now s)) = trace s @ evs"
  using call_summary [of en c now s "fst (run_call en c now s)" "snd (run_call en c now s)"]
  by auto

lemma both_branches: "P x \<Longrightarrow> P y \<Longrightarrow> P (if b then x else y)"
  by simp

lemma launch_section_extends:
  "\<exists>evs. trace (snd (launch_section en now s)) = trace s @ evs"
proof -
  obtain r s1 where c: "run_call en GetPriceAfterLaunch now s = (r, s1)"
    by (cases "run_call en GetPriceAfterLaunch now s")
  with call_extends [of en GetPriceAfterLaunch now s] obtain evs where
    "trace s1 = trace s @ evs" by auto
  with c show ?thesis
    by (cases r) (auto simp: launch_section_def)
qed

lemma price_section_extends:
  "\<exists>evs. trace (snd (price_section en ui now s)) = trace s @ evs"
proof -
  define card_id where "card_id =
    (case card_id_input ui of
       Some typed \<Rightarrow> typed
     | None \<Rightarrow> (case selected_card_id s of Some c \<Rightarrow> c | None \<Rightarrow> []))"
  define s1 where "s1 =
    (if Some card_id \<noteq> selected_card_id s then s\<lparr>selected_card_id := Some card_id\<rparr> else s)"
  have t: "trace s1 = trace s" by (simp add: s1_def)
  obtain r s2 where c: "run_call en (GetCardPrices card_id) now s1 = (r, s2)"
    by (cases "run_call en (GetCardPrices card_id) now s1")
  with call_extends [of en "GetCardPrices card_id" now s1] t obtain evs where
    "trace s2 = trace s @ evs" by auto
  with c t have "\<exists>evs. trace (snd
      (case get_card_prices en card_id now s1 of
         (Inl e, s2) \<Rightarrow> (Inl e, s2)
       | (Inr df, s2) \<Rightarrow>
           (Inr (),
            if \<not> df_empty df then s2
            else emit (StWarning ''No data found for this card ID.'') s2))) =
      trace s @ evs"
    by (cases r) auto
  moreover have "\<exists>evs. trace (snd (Inr () :: exn + unit,
      emit (StInfo ''Please enter a card ID to view price data.'') s1)) = trace s @ evs"
    using t by simp
  ultimately show ?thesis
    unfolding price_section_def Let_def card_id_def [symmetric] s1_def [symmetric]
    by (rule both_branches [where P = "\<lambda>x. \<exists>evs. trace (snd x) = trace s @ evs"])
qed

lemma search_section_extends:
  "\<exists>evs. trace (snd (search_section en ui now s)) = trace s @ evs"
proof -
  let ?c = "SearchCards (str_lower en (search_term1_raw ui))
      (str_lower en (search_term2_raw ui))"
  obtain r s1 where c: "run_call en ?c now s = (r, s1)"
    by (cases "run_call en ?c now s")
  with call_extends [of en ?c now s] obtain evs where "trace s1 = trace s @ evs" by auto
  with c show ?thesis
    by (cases r) (auto simp: search_section_def Let_def split: option.splits)
qed

lemma render_pass_first_event:
  "\<exists>evs. trace (snd (render_pass en ui now s)) = trace s @ GetActiveSession # evs"
proof -
  let ?i = "init_session_state s"
  obtain r s1 where g: "get_snowflake_session en ?i = (r, s1)"
    by (cases "get_snowflake_session en ?i")
  with session_shape [of en ?i] obtain evs where
    s1: "trace s1 = trace s @ GetActiveSession # evs" by auto
  show ?thesis
  proof (cases r)
    case (Inl e)
    with g s1 show ?thesis by (simp add: render_pass_def)
  next
    case (Inr hl)
    then obtain h l where r: "r = Inr (h, l)" by (cases hl) simp
    let ?s2 = "emit (StSuccess l) s1"
    show ?thesis
    proof (cases "clear_button ui")
      case True
      with g r s1 show ?thesis by (simp add: render_pass_def cache_data_clear_def)
    next
      case False
      obtain r3 s3 where a: "search_section en ui now ?s2 = (r3, s3)"
        by (cases "search_section en ui now ?s2")
      with search_section_extends [of en ui now ?s2] s1 obtain evs3 where
        s3: "trace s3 = trace s @ GetActiveSession # evs3" by auto
      obtain r4 s4 where b: "price_section en ui now s3 = (r4, s4)"
        by (cases "price_section en ui now s3")
      with price_section_extends [of en ui now s3] s3 obtain evs4 where
        s4: "trace s4 = trace s @ GetActiveSession # evs4" by auto
      obtain evs5 where
        s5: "trace (snd (launch_section en now s4)) = trace s @ GetActiveSession # evs5"
        using launch_section_extends [of en now s4] s4 by auto
      from g r False a b s3 s4 s5 show ?thesis
        by (cases r3; cases r4) (simp_all add: render_pass_def)
    qed
  qed
qed

text \<open>
  C10. Every render pass asks for a session at the top of the script, before any query
  operation is called: whatever the cache holds and whatever the user did, the first
  event a pass adds to the trace is the request for the ambient session. When both
  acquisition paths fail the pass stops there: it ends with the stop, the error message
  is its last output, no query operation has run (no SQL, no cache read, no message of
  the sections) and the cache is as before, even when every result the pass needs is
  in the cache.
\<close>

theorem render_pass_acquires_session_first:
  "(\<exists>evs. trace (snd (render_pass en ui now s)) = trace s @ GetActiveSession # evs) \<and>
   (both_paths_fail en \<longrightarrow>
      fst (render_pass en ui now s) = Inl StopException \<and>
      snd (render_pass en ui now s) = snd (get_snowflake_session en (init_session_state s)) \<and>
      last (trace (snd (render_pass en ui now s))) = StStop \<and>
      fetches s (snd (render_pass en ui now s)) = 0 \<and>
      cache (snd (render_pass en ui now s)) = cache s)"
proof -
  have "fst (render_pass en ui now s) = Inl StopException \<and>
      snd (render_pass en ui now s) = snd (get_snowflake_session en (init_session_state s)) \<and>
      last (trace (snd (render_pass en ui now s))) = StStop \<and>
      fetches s (snd (render_pass en ui now s)) = 0 \<and>
      cache (snd (render_pass en ui now s)) = cache s"
    if "both_paths_fail en"
  proof -
    from both_paths_fail_stops [OF that, of "init_session_state s"]
    obtain e evs where
      "get_snowflake_session en (init_session_state s) =
         (Inl StopException,
          (init_session_state s)\<lparr>trace := trace s @ GetActiveSession # evs @
            [StError (''Failed to connect to Snowflake: '' @ e), StStop]\<rparr>)"
      "filter is_ExecSql evs = []"
      by auto
    then show ?thesis by (simp add: render_pass_def fetches_append)
  qed
  with render_pass_first_event [of en ui now s] show ?thesis by blast
qed

theorem render_pass_acquires_session_first_witness:
  "both_paths_fail env_down \<and>
   run_call env_down (SearchCards ''vivi'' ''final fantasy'') 10 (state_cached 0) =
     (Inr frame_hit, state_cached 0) \<and>
   run_call env_down (GetCardPrices ''ecc1027a-8c07-44a0-bdde-fa2844cff694'') 10
     (state_cached 0) = (Inr frame_hit, state_cached 0) \<and>
   run_call env_down GetPriceAfterLaunch 10 (state_cached 0) =
     (Inr frame_hit, state_cached 0) \<and>
   fst (render_pass env_down \<lparr>search_term1_raw = ''vivi'',
     search_term2_raw = ''final fantasy'', search_button = False, clear_button = False,
     selected_row_id = None, card_id_input = None\<rparr> 10 (state_cached 0)) = Inl StopException \<and>
   fetches (state_cached 0) (snd (render_pass env_down \<lparr>search_term1_raw = ''vivi'',
     search_term2_raw = ''final fantasy'', search_button = False, clear_button = False,
     selected_row_id = None, card_id_input = None\<rparr> 10 (state_cached 0))) = 0 \<and>
   cache (snd (render_pass env_down \<lparr>search_term1_raw = ''vivi'',
     search_term2_raw = ''final fantasy'', search_button = False, clear_button = False,
     selected_row_id = None, card_id_input = None\<rparr> 10 (state_cached 0))) =
     cache (state_cached 0)"
proof -
  have d: "both_paths_fail env_down"
    by (simp add: eval_defs)
  have h: "run_call env_down (SearchCards ''vivi'' ''final fantasy'') 10 (state_cached 0) =
      (Inr frame_hit, state_cached 0)"
    "run_call env_down (GetCardPrices ''ecc1027a-8c07-44a0-bdde-fa2844cff694'') 10
      (state_cached 0) = (Inr frame_hit, state_cached 0)"
    "run_call env_down GetPriceAfterLaunch 10 (state_cached 0) =
      (Inr frame_hit, state_cached 0)"
    by (rule call_hit, simp add: cache_lookup_def state_cached_def)+
  from render_pass_acquires_session_first [of env_down _ 10 "state_cached 0"] d h
  show ?thesis by blast
qed

subsection \<open>The text sent to the executor\<close>

lemma call_miss_sends:
  assumes "cache_lookup 86400 (key_of c) now s = None"
    and "fst (get_snowflake_session en s) = Inr (h, l)"
  shows "filter is_ExecSql (new_events s (snd (run_call en c now s))) = [ExecSql h (query_of c)]"
proof -
  obtain evs where evs:
    "trace (snd (get_snowflake_session en s)) = trace s @ GetActiveSession # evs"
    "filter is_ExecSql evs = []"
    using session_shape [of en s] by blast
  show ?thesis
  proof (cases "session_sql en h (query_of c)")
    case (Inl e)
    from call_miss_failed [OF assms Inl] evs show ?thesis by simp
  next
    case (Inr df)
    from call_miss_ok [OF assms Inr] evs show ?thesis by simp
  qed
qed

text \<open>
  C9. Whenever an operation runs its body with a session (a miss with a session
  acquired), exactly one string is sent to the executor, and it is the fixed template
  with the parameters put in as they are, between apostrophes: nothing is escaped,
  quoted or bound. The string depends on the parameters only, not on the state, the
  time, the session or the environment. Apostrophes inside a parameter arrive in the
  SQL text unchanged.
\<close>

theorem sql_text_is_verbatim_interpolation:
  assumes "fst (get_snowflake_session en s) = Inr (h, l)"
  shows "(cache_lookup 86400 (Key_search_cards search_term1 search_term2) now s = None \<longrightarrow>
        filter is_ExecSql
          (new_events s (snd (search_cards en search_term1 search_term2 now s))) =
        [ExecSql h (''SELECT * FROM TABLE(MTG_COST.PUBLIC.GET_CARD_ID('' @ [CHR 0x27] @
           search_term1 @ [CHR 0x27] @ '', '' @ [CHR 0x27] @ search_term2 @ [CHR 0x27] @
           '')) LIMIT 1000'')]) \<and>
     (cache_lookup 86400 (Key_get_card_prices card_id) now s = None \<longrightarrow>
        filter is_ExecSql (new_events s (snd (get_card_prices en card_id now s))) =
        [ExecSql h (''SELECT * FROM TABLE(MTG_COST.PUBLIC.GET_CARD_PRICES('' @ [CHR 0x27] @
           card_id @ [CHR 0x27] @ ''))'')]) \<and>
     (cache_lookup 86400 Key_get_price_after_launch now s = None \<longrightarrow>
        filter is_ExecSql (new_events s (snd (get_price_after_launch en now s))) =
        [ExecSql h ''SELECT * FROM price_after_launch''])"
  using call_miss_sends [of "SearchCards search_term1 search_term2" now s en h l]
    call_miss_sends [of "GetCardPrices card_id" now s en h l]
    call_miss_sends [of GetPriceAfterLaunch now s en h l] assms
  by (simp add: search_query_def prices_query_def launch_query_def apostrophe_def)

theorem sql_text_is_verbatim_interpolation_witness:
  "fst (get_snowflake_session env_active state0) =
     Inr (SessionHandle 1, ''Connected using active Snowflake session'') \<and>
   cache_lookup 86400 (Key_search_cards (''O'' @ [CHR 0x27] @ ''Brien'') ''x'') 0 state0 = None \<and>
   cache_lookup 86400 (Key_get_card_prices ([CHR 0x27] @ ''); DROP'')) 0 state0 = None \<and>
   cache_lookup 86400 Key_get_price_after_launch 0 state0 = None \<and>
   filter is_ExecSql (new_events state0
       (snd (search_cards env_active (''O'' @ [CHR 0x27] @ ''Brien'') ''x'' 0 state0))) =
     [ExecSql (SessionHandle 1)
        (''SELECT * FROM TABLE(MTG_COST.PUBLIC.GET_CARD_ID('' @ [CHR 0x27] @
         ''O'' @ [CHR 0x27] @ ''Brien'' @ [CHR 0x27] @ '', '' @ [CHR 0x27] @ ''x'' @ [CHR 0x27] @
         '')) LIMIT 1000'')] \<and>
   filter is_ExecSql (new_events state0
       (snd (get_card_prices env_active ([CHR 0x27] @ ''); DROP'') 0 state0))) =
     [ExecSql (SessionHandle 1)
        (''SELECT * FROM TABLE(MTG_COST.PUBLIC.GET_CARD_PRICES('' @ [CHR 0x27] @
         [CHR 0x27] @ ''); DROP'' @ [CHR 0x27] @ ''))'')] \<and>
   filter is_ExecSql (new_events state0 (snd (get_price_after_launch env_active 0 state0))) =
     [ExecSql (SessionHandle 1) ''SELECT * FROM price_after_launch'']"
proof -
  have a: "fst (get_snowflake_session env_active state0) =
      Inr (SessionHandle 1, ''Connected using active Snowflake session'')"
    by (simp add: session_active env_active_def)
  have m: "cache_lookup 86400 k 0 state0 = None" for k
    by (simp add: cache_lookup_def state0_def)
  from sql_text_is_verbatim_interpolation
    [OF a, of "''O'' @ [CHR 0x27] @ ''Brien''" "''x''" 0 "[CHR 0x27] @ ''); DROP''"]
    a m
  show ?thesis by simp
qed

subsection \<open>A query that fails, a query that finds nothing\<close>

lemma session_ok_quiet:
  assumes "fst (get_snowflake_session en s) = Inr (h, l)"
  shows "\<exists>evs. trace (snd (get_snowflake_session en s)) = trace s @ GetActiveSession # evs \<and>
     cache (snd (get_snowflake_session en s)) = cache s \<and>
     filter is_ExecSql evs = [] \<and> filter is_StError evs = []"
  using session_shape [of en s] assms by auto

lemma hit_after_store:
  assumes "cache s' (key_of c) = Some (df, now)" and "t2 - now < 86400"
  shows "run_call en2 c t2 s' = (Inr df, s')"
  using assms by (simp add: call_hit cache_lookup_Some)

text \<open>
  C2 (not as claimed). With a session at hand, the SQL of
  \<^verbatim>\<open>get_card_prices('abc')\<close> raises: the call returns \<^verbatim>\<open>pd.DataFrame()\<close> as an ordinary
  result, the cache holds that empty frame under the key, and a call with the same key
  a minute later, in an environment where the query would succeed, returns the empty
  frame from the cache and sends no SQL.
\<close>

theorem failed_query_is_cached:
  "session_sql env_sql_fails (SessionHandle 1) (prices_query ''abc'') =
     Inl ''SQL compilation error'' \<and>
   cache_lookup 86400 (Key_get_card_prices ''abc'') 0 state0 = None \<and>
   fst (get_card_prices env_sql_fails ''abc'' 0 state0) = Inr pd_DataFrame \<and>
   cache (snd (get_card_prices env_sql_fails ''abc'' 0 state0)) (Key_get_card_prices ''abc'') =
     Some (pd_DataFrame, 0) \<and>
   session_sql env_active (SessionHandle 1) (prices_query ''abc'') = Inr frame_hit \<and>
   get_card_prices env_active ''abc'' 60 (snd (get_card_prices env_sql_fails ''abc'' 0 state0)) =
     (Inr pd_DataFrame, snd (get_card_prices env_sql_fails ''abc'' 0 state0)) \<and>
   fetches state0 (snd (get_card_prices env_active ''abc'' 60
     (snd (get_card_prices env_sql_fails ''abc'' 0 state0)))) = 1"
proof -
  let ?c = "GetCardPrices ''abc''"
  have m: "cache_lookup 86400 (key_of ?c) 0 state0 = None"
    by (simp add: cache_lookup_def state0_def)
  have a: "fst (get_snowflake_session env_sql_fails state0) =
      Inr (SessionHandle 1, ''Connected using active Snowflake session'')"
    by (simp add: session_active env_sql_fails_def)
  have f: "session_sql env_sql_fails (SessionHandle 1) (query_of ?c) = Inl ''SQL compilation error''"
    by (simp add: env_sql_fails_def)
  have g: "session_sql env_active (SessionHandle 1) (query_of ?c) = Inr frame_hit"
    by (simp add: env_active_def)
  note first = call_miss_failed [OF m a f, unfolded run_call.simps]
  have second: "get_card_prices env_active ''abc'' 60
        (snd (get_card_prices env_sql_fails ''abc'' 0 state0)) =
      (Inr pd_DataFrame, snd (get_card_prices env_sql_fails ''abc'' 0 state0))"
    using hit_after_store [of "snd (get_card_prices env_sql_fails ''abc'' 0 state0)" ?c
        pd_DataFrame 0 60 env_active]
    by (simp add: first)
  have sess: "get_snowflake_session env_sql_fails state0 =
      (Inr (SessionHandle 1, ''Connected using active Snowflake session''),
       emit GetActiveSession state0)"
    by (simp add: session_active env_sql_fails_def)
  have n: "fetches state0 (snd (get_card_prices env_sql_fails ''abc'' 0 state0)) = 1"
    by (simp add: first sess fetches_def new_events_def)
  from m f g first second n show ?thesis by simp
qed

text \<open>
  C2 (amended). On a miss with a session acquired, if the SQL execution raises, the
  operation catches the exception, shows its error message and returns
  \<^verbatim>\<open>pd.DataFrame()\<close> as an ordinary result; the cache stores that empty result under the
  key, and every call with the same key less than 86400 seconds later is a hit that
  returns it and runs nothing. A failure propagates only when no session can be
  acquired: then the stop leaves the operation, nothing is stored, and a later call
  with the same key is a miss again.
\<close>

theorem failed_query_returns_empty_and_is_stored:
  assumes "cache_lookup 86400 (key_of c) now s = None"
  shows "(\<forall>h l e. fst (get_snowflake_session en s) = Inr (h, l) \<and>
        session_sql en h (query_of c) = Inl e \<longrightarrow>
          fst (run_call en c now s) = Inr pd_DataFrame \<and>
          last (trace (snd (run_call en c now s))) = StError (error_prefix c @ e) \<and>
          cache (snd (run_call en c now s)) = (cache s)(key_of c \<mapsto> (pd_DataFrame, now)) \<and>
          (\<forall>en2 t2. t2 - now < 86400 \<longrightarrow>
             run_call en2 c t2 (snd (run_call en c now s)) =
               (Inr pd_DataFrame, snd (run_call en c now s)))) \<and>
     (\<forall>x. fst (get_snowflake_session en s) = Inl x \<longrightarrow>
        fst (run_call en c now s) = Inl x \<and>
        cache (snd (run_call en c now s)) = cache s \<and>
        (\<forall>t2. cache_lookup 86400 (key_of c) t2 (snd (run_call en c now s)) =
           cache_lookup 86400 (key_of c) t2 s))"
proof -
  have failed: "fst (run_call en c now s) = Inr pd_DataFrame \<and>
      last (trace (snd (run_call en c now s))) = StError (error_prefix c @ e) \<and>
      cache (snd (run_call en c now s)) = (cache s)(key_of c \<mapsto> (pd_DataFrame, now)) \<and>
      (\<forall>en2 t2. t2 - now < 86400 \<longrightarrow>
         run_call en2 c t2 (snd (run_call en c now s)) =
           (Inr pd_DataFrame, snd (run_call en c now s)))"
    if "fst (get_snowflake_session en s) = Inr (h, l)" "session_sql en h (query_of c) = Inl e"
    for h l e
  proof -
    note r = call_miss_failed [OF assms that]
    have "run_call en2 c t2 (snd (run_call en c now s)) =
        (Inr pd_DataFrame, snd (run_call en c now s))" if "t2 - now < 86400" for en2 t2
      using that by (intro hit_after_store [where now = now]) (simp_all add: r)
    then show ?thesis by (simp add: r)
  qed
  have stopped: "fst (run_call en c now s) = Inl x \<and>
      cache (snd (run_call en c now s)) = cache s \<and>
      (\<forall>t2. cache_lookup 86400 (key_of c) t2 (snd (run_call en c now s)) =
         cache_lookup 86400 (key_of c) t2 s)"
    if "fst (get_snowflake_session en s) = Inl x" for x
    using call_miss_stopped [OF assms that] session_shape [of en s]
    by (auto simp: cache_lookup_def)
  from failed stopped show ?thesis by blast
qed

theorem failed_query_returns_empty_and_is_stored_witness:
  "cache_lookup 86400 (key_of (SearchCards ''vivi'' ''final'')) 7 state0 = None \<and>
   fst (get_snowflake_session env_sql_fails state0) =
     Inr (SessionHandle 1, ''Connected using active Snowflake session'') \<and>
   session_sql env_sql_fails (SessionHandle 1) (query_of (SearchCards ''vivi'' ''final'')) =
     Inl ''SQL compilation error'' \<and>
   (8::real) - 7 < 86400 \<and>
   fst (run_call env_sql_fails (SearchCards ''vivi'' ''final'') 7 state0) = Inr pd_DataFrame \<and>
   last (trace (snd (run_call env_sql_fails (SearchCards ''vivi'' ''final'') 7 state0))) =
     StError ''Error searching cards: SQL compilation error'' \<and>
   run_call env_active (SearchCards ''vivi'' ''final'') 8
       (snd (run_call env_sql_fails (SearchCards ''vivi'' ''final'') 7 state0)) =
     (Inr pd_DataFrame, snd (run_call env_sql_fails (SearchCards ''vivi'' ''final'') 7 state0)) \<and>
   fst (get_snowflake_session env_down state0) = Inl StopException \<and>
   fst (run_call env_down (SearchCards ''vivi'' ''final'') 7 state0) = Inl StopException \<and>
   cache (snd (run_call env_down (SearchCards ''vivi'' ''final'') 7 state0)) = cache state0"
proof -
  let ?c = "SearchCards ''vivi'' ''final''"
  have m: "cache_lookup 86400 (key_of ?c) 7 state0 = None"
    by (simp add: cache_lookup_def state0_def)
  have a: "fst (get_snowflake_session env_sql_fails state0) =
      Inr (SessionHandle 1, ''Connected using active Snowflake session'')"
    by (simp add: session_active env_sql_fails_def)
  have f: "session_sql env_sql_fails (SessionHandle 1) (query_of ?c) = Inl ''SQL compilation error''"
    by (simp add: env_sql_fails_def)
  have t: "(8::real) - 7 < 86400" by simp
  have d: "fst (get_snowflake_session env_down state0) = Inl StopException"
    by (simp add: eval_defs)
  from failed_query_returns_empty_and_is_stored [OF m, of env_sql_fails] a f t
  have 1: "fst (run_call env_sql_fails ?c 7 state0) = Inr pd_DataFrame \<and>
     last (trace (snd (run_call env_sql_fails ?c 7 state0))) =
       StError (error_prefix ?c @ ''SQL compilation error'') \<and>
     run_call env_active ?c 8 (snd (run_call env_sql_fails ?c 7 state0)) =
       (Inr pd_DataFrame, snd (run_call env_sql_fails ?c 7 state0))"
    by blast
  from failed_query_returns_empty_and_is_stored [OF m, of env_down] d
  have 2: "fst (run_call env_down ?c 7 state0) = Inl StopException \<and>
     cache (snd (run_call env_down ?c 7 state0)) = cache state0"
    by blast
  from m a f t d 1 2 show ?thesis by simp
qed

lemma frame_is_pd_DataFrame:
  "df = pd_DataFrame \<longleftrightarrow> df_columns df = [] \<and> df_rows df = []"
  by (cases df) (simp add: pd_DataFrame_def)

text \<open>
  C6 (not as claimed). A query that fails and a query that succeeds with no rows both
  come back from \<^verbatim>\<open>get_card_prices\<close> as ordinary results for which \<^verbatim>\<open>.empty\<close> is true; the
  failure is not an error at the interface. When the successful result has no columns
  either, the two results are the same value.
\<close>

theorem failure_and_empty_result_look_alike:
  "session_sql env_sql_fails (SessionHandle 1) (prices_query ''abc'') =
     Inl ''SQL compilation error'' \<and>
   fst (get_card_prices env_sql_fails ''abc'' 0 state0) = Inr pd_DataFrame \<and>
   df_empty pd_DataFrame \<and>
   session_sql env_zero_rows (SessionHandle 1) (prices_query ''abc'') = Inr frame_zero_rows \<and>
   fst (get_card_prices env_zero_rows ''abc'' 0 state0) = Inr frame_zero_rows \<and>
   df_empty frame_zero_rows \<and>
   session_sql env_no_columns (SessionHandle 1) (prices_query ''abc'') = Inr pd_DataFrame \<and>
   fst (get_card_prices env_no_columns ''abc'' 0 state0) =
     fst (get_card_prices env_sql_fails ''abc'' 0 state0)"
proof -
  let ?c = "GetCardPrices ''abc''"
  have m: "cache_lookup 86400 (key_of ?c) 0 state0 = None"
    by (simp add: cache_lookup_def state0_def)
  have a: "fst (get_snowflake_session env_sql_fails state0) =
      Inr (SessionHandle 1, ''Connected using active Snowflake session'')"
    "fst (get_snowflake_session env_zero_rows state0) =
      Inr (SessionHandle 1, ''Connected using active Snowflake session'')"
    "fst (get_snowflake_session env_no_columns state0) =
      Inr (SessionHandle 1, ''Connected using active Snowflake session'')"
    by (simp_all add: session_active env_sql_fails_def env_zero_rows_def env_no_columns_def)
  have q: "session_sql env_sql_fails (SessionHandle 1) (query_of ?c) = Inl ''SQL compilation error''"
    "session_sql env_zero_rows (SessionHandle 1) (query_of ?c) = Inr frame_zero_rows"
    "session_sql env_no_columns (SessionHandle 1) (query_of ?c) = Inr pd_DataFrame"
    by (simp_all add: env_sql_fails_def env_zero_rows_def env_no_columns_def)
  note r = call_miss_failed [OF m a(1) q(1), unfolded run_call.simps]
    call_miss_ok [OF m a(2) q(2), unfolded run_call.simps]
    call_miss_ok [OF m a(3) q(3), unfolded run_call.simps]
  have e: "df_empty pd_DataFrame" "df_empty frame_zero_rows"
    by (simp_all add: df_empty_def pd_DataFrame_def frame_zero_rows_def)
  from q e show ?thesis by (simp add: r)
qed

text \<open>
  C6 (amended). On a miss with a session acquired, a query that succeeds with zero rows
  is returned as it is, an ordinary result for which \<^verbatim>\<open>.empty\<close> is true, and no error
  message is shown. A query that fails is returned as an ordinary result as well, the
  frame \<^verbatim>\<open>pd.DataFrame()\<close> without columns or rows, for which \<^verbatim>\<open>.empty\<close> is true too, after
  one error message has been shown. The returned values differ exactly when the
  successful result has at least one column; the kind of outcome does not.
\<close>

theorem empty_result_and_failure_both_returned:
  assumes "cache_lookup 86400 (key_of c) now s = None"
    and "fst (get_snowflake_session en s) = Inr (h, l)"
  shows "(\<forall>df. session_sql en h (query_of c) = Inr df \<and> df_rows df = [] \<longrightarrow>
        fst (run_call en c now s) = Inr df \<and> df_empty df \<and>
        filter is_StError (new_events s (snd (run_call en c now s))) = [] \<and>
        (df = pd_DataFrame \<longleftrightarrow> df_columns df = [])) \<and>
     (\<forall>e. session_sql en h (query_of c) = Inl e \<longrightarrow>
        fst (run_call en c now s) = Inr pd_DataFrame \<and> df_empty pd_DataFrame \<and>
        filter is_StError (new_events s (snd (run_call en c now s))) =
          [StError (error_prefix c @ e)])"
proof -
  obtain evs where evs:
    "trace (snd (get_snowflake_session en s)) = trace s @ GetActiveSession # evs"
    "filter is_StError evs = []"
    using session_ok_quiet [OF assms(2)] by blast
  have ok: "fst (run_call en c now s) = Inr df \<and> df_empty df \<and>
      filter is_StError (new_events s (snd (run_call en c now s))) = [] \<and>
      (df = pd_DataFrame \<longleftrightarrow> df_columns df = [])"
    if "session_sql en h (query_of c) = Inr df" "df_rows df = []" for df
    using call_miss_ok [OF assms that(1)] evs that(2)
    by (simp add: df_empty_def frame_is_pd_DataFrame)
  have failed: "fst (run_call en c now s) = Inr pd_DataFrame \<and> df_empty pd_DataFrame \<and>
      filter is_StError (new_events s (snd (run_call en c now s))) =
        [StError (error_prefix c @ e)]"
    if "session_sql en h (query_of c) = Inl e" for e
    using call_miss_failed [OF assms that] evs
    by (simp add: df_empty_def pd_DataFrame_def)
  from ok failed show ?thesis by blast
qed

theorem empty_result_and_failure_both_returned_witness:
  "cache_lookup 86400 (key_of GetPriceAfterLaunch) 3 state0 = None \<and>
   fst (get_snowflake_session env_zero_rows state0) =
     Inr (SessionHandle 1, ''Connected using active Snowflake session'') \<and>
   session_sql env_zero_rows (SessionHandle 1) (query_of GetPriceAfterLaunch) =
     Inr frame_zero_rows \<and>
   df_rows frame_zero_rows = [] \<and>
   fst (run_call env_zero_rows GetPriceAfterLaunch 3 state0) = Inr frame_zero_rows \<and>
   filter is_StError
     (new_events state0 (snd (run_call env_zero_rows GetPriceAfterLaunch 3 state0))) = [] \<and>
   fst (get_snowflake_session env_sql_fails state0) =
     Inr (SessionHandle 1, ''Connected using active Snowflake session'') \<and>
   session_sql env_sql_fails (SessionHandle 1) (query_of GetPriceAfterLaunch) =
     Inl ''SQL compilation error'' \<and>
   fst (run_call env_sql_fails GetPriceAfterLaunch 3 state0) = Inr pd_DataFrame \<and>
   filter is_StError
     (new_events state0 (snd (run_call env_sql_fails GetPriceAfterLaunch 3 state0))) =
     [StError ''Error querying price after launch data: SQL compilation error'']"
proof -
  let ?c = GetPriceAfterLaunch
  have m: "cache_lookup 86400 (key_of ?c) 3 state0 = None"
    by (simp add: cache_lookup_def state0_def)
  have a: "fst (get_snowflake_session env_zero_rows state0) =
      Inr (SessionHandle 1, ''Connected using active Snowflake session'')"
    "fst (get_snowflake_session env_sql_fails state0) =
      Inr (SessionHandle 1, ''Connected using active Snowflake session'')"
    by (simp_all add: session_active env_sql_fails_def env_zero_rows_def)
  have q: "session_sql env_zero_rows (SessionHandle 1) (query_of ?c) = Inr frame_zero_rows"
    "session_sql env_sql_fails (SessionHandle 1) (query_of ?c) = Inl ''SQL compilation error''"
    "df_rows frame_zero_rows = []"
    by (simp_all add: env_sql_fails_def env_zero_rows_def frame_zero_rows_def)
  from empty_result_and_failure_both_returned [OF m a(1)] q
  have 1: "fst (run_call env_zero_rows ?c 3 state0) = Inr frame_zero_rows \<and>
    filter is_StError (new_events state0 (snd (run_call env_zero_rows ?c 3 state0))) = []"
    by blast
  from empty_result_and_failure_both_returned [OF m a(2)] q
  have 2: "fst (run_call env_sql_fails ?c 3 state0) = Inr pd_DataFrame \<and>
    filter is_StError (new_events state0 (snd (run_call env_sql_fails ?c 3 state0))) =
      [StError (error_prefix ?c @ ''SQL compilation error'')]"
    by blast
  from m a q 1 2 show ?thesis by simp
qed

subsection \<open>Letter case of the search terms\<close>

text \<open>
  C1 (not as claimed). \<^verbatim>\<open>search_cards\<close> does not lower-case its arguments, and the cache
  keys on them as given: after \<^verbatim>\<open>search_cards("vivi", "final")\<close> has filled the cache,
  \<^verbatim>\<open>search_cards("VIVI", "FINAL")\<close> a second later is a miss that sends its own SQL text
  and gets an entry of its own, although the arguments of the second call lower to those
  of the first.
\<close>

theorem search_cards_distinguishes_case:
  "str_lower env_active ''VIVI'' = ''vivi'' \<and> str_lower env_active ''FINAL'' = ''final'' \<and>
   filter is_ExecSql
     (trace (snd (search_cards env_active ''VIVI'' ''FINAL'' 1
        (snd (search_cards env_active ''vivi'' ''final'' 0 state0))))) =
     [ExecSql (SessionHandle 1) (search_query ''vivi'' ''final''),
      ExecSql (SessionHandle 1) (search_query ''VIVI'' ''FINAL'')] \<and>
   search_query ''vivi'' ''final'' \<noteq> search_query ''VIVI'' ''FINAL'' \<and>
   cache (snd (search_cards env_active ''VIVI'' ''FINAL'' 1
        (snd (search_cards env_active ''vivi'' ''final'' 0 state0))))
     (Key_search_cards ''vivi'' ''final'') = Some (frame_hit, 0) \<and>
   cache (snd (search_cards env_active ''VIVI'' ''FINAL'' 1
        (snd (search_cards env_active ''vivi'' ''final'' 0 state0))))
     (Key_search_cards ''VIVI'' ''FINAL'') = Some (frame_hit, 1)"
proof -
  have "ascii_lower ''VIVI'' = ''vivi''" "ascii_lower ''FINAL'' = ''final''"
    by code_simp+
  then have t: "str_lower env_active ''VIVI'' = ''vivi''"
    "str_lower env_active ''FINAL'' = ''final''"
    by (simp_all add: env_active_def)
  have a: "fst (get_snowflake_session env_active s) =
      Inr (SessionHandle 1, ''Connected using active Snowflake session'')"
    "snd (get_snowflake_session env_active s) = emit GetActiveSession s" for s
    by (simp_all add: session_active env_active_def)
  have q: "session_sql env_active (SessionHandle 1) x = Inr frame_hit" for x
    by (simp add: env_active_def)
  have c0: "cache state0 = Map.empty" "trace state0 = []"
    by (simp_all add: state0_def)
  have m1: "cache_lookup 86400 (key_of (SearchCards ''vivi'' ''final'')) 0 state0 = None"
    by (simp add: cache_lookup_def c0)
  define s1 where "s1 = snd (search_cards env_active ''vivi'' ''final'' 0 state0)"
  note first = call_miss_ok [OF m1 a(1) q, unfolded run_call.simps a(2)]
  have s1: "cache s1 = [Key_search_cards ''vivi'' ''final'' \<mapsto> (frame_hit, 0)]"
    "trace s1 = [GetActiveSession, ExecSql (SessionHandle 1) (search_query ''vivi'' ''final'')]"
    by (simp_all add: s1_def first c0)
  have m2: "cache_lookup 86400 (key_of (SearchCards ''VIVI'' ''FINAL'')) 1 s1 = None"
    by (simp add: cache_lookup_def s1)
  note second = call_miss_ok [OF m2 a(1) q, unfolded run_call.simps a(2)]
  have d: "search_query ''vivi'' ''final'' \<noteq> search_query ''VIVI'' ''FINAL''"
    by (simp add: search_query_def)
  have "filter is_ExecSql (trace (snd (search_cards env_active ''VIVI'' ''FINAL'' 1 s1))) =
     [ExecSql (SessionHandle 1) (search_query ''vivi'' ''final''),
      ExecSql (SessionHandle 1) (search_query ''VIVI'' ''FINAL'')] \<and>
   cache (snd (search_cards env_active ''VIVI'' ''FINAL'' 1 s1))
     (Key_search_cards ''vivi'' ''final'') = Some (frame_hit, 0) \<and>
   cache (snd (search_cards env_active ''VIVI'' ''FINAL'' 1 s1))
     (Key_search_cards ''VIVI'' ''FINAL'') = Some (frame_hit, 1)"
    by (simp add: second s1)
  with t d show ?thesis unfolding s1_def by blast
qed

text \<open>
  C1 (amended). The script, not \<^verbatim>\<open>search_cards\<close>, lower-cases the two text inputs, with
  \<^verbatim>\<open>str.lower()\<close>, before it calls \<^verbatim>\<open>search_cards\<close>. So whenever \<^verbatim>\<open>str.lower()\<close> maps
  the inputs of two passes to the same two strings, whatever the letters are, the search
  section and the whole pass behave the same from every state: they call
  \<^verbatim>\<open>search_cards\<close> with the same arguments, hence with the same cache key and the same
  SQL text, and share one cache entry. When the search runs, its arguments are the
  lowered inputs.
\<close>

theorem search_section_ignores_case:
  assumes "str_lower en a = str_lower en (search_term1_raw ui)"
    and "str_lower en b = str_lower en (search_term2_raw ui)"
  shows "Key_search_cards (str_lower en a) (str_lower en b) =
       Key_search_cards (str_lower en (search_term1_raw ui))
         (str_lower en (search_term2_raw ui)) \<and>
     search_section en (ui\<lparr>search_term1_raw := a, search_term2_raw := b\<rparr>) now s =
       search_section en ui now s \<and>
     render_pass en (ui\<lparr>search_term1_raw := a, search_term2_raw := b\<rparr>) now s =
       render_pass en ui now s \<and>
     (\<forall>h l. search_button ui \<and> fst (get_snowflake_session en s) = Inr (h, l) \<and>
        cache_lookup 86400
          (Key_search_cards (str_lower en (search_term1_raw ui))
             (str_lower en (search_term2_raw ui))) now s = None \<longrightarrow>
        filter is_ExecSql (new_events s (snd (search_section en ui now s))) =
          [ExecSql h (search_query (str_lower en (search_term1_raw ui))
             (str_lower en (search_term2_raw ui)))])"
proof -
  let ?t1 = "str_lower en (search_term1_raw ui)"
  let ?t2 = "str_lower en (search_term2_raw ui)"
  have same: "search_section en (ui\<lparr>search_term1_raw := a, search_term2_raw := b\<rparr>) now t =
      search_section en ui now t" for t
    using assms by (simp add: search_section_def Let_def split: prod.splits sum.splits)
  have p: "price_section en (ui\<lparr>search_term1_raw := a, search_term2_raw := b\<rparr>) now t =
      price_section en ui now t" for t
    by (simp add: price_section_def)
  have pass: "render_pass en (ui\<lparr>search_term1_raw := a, search_term2_raw := b\<rparr>) now s =
      render_pass en ui now s"
    using same p by (simp add: render_pass_def Let_def split: prod.splits sum.splits)
  have sent: "filter is_ExecSql (new_events s (snd (search_section en ui now s))) =
      [ExecSql h (search_query ?t1 ?t2)]"
    if b: "search_button ui" and g: "fst (get_snowflake_session en s) = Inr (h, l)"
      and m: "cache_lookup 86400 (Key_search_cards ?t1 ?t2) now s = None" for h l
  proof -
    let ?c = "SearchCards ?t1 ?t2"
    obtain r s1 where c: "search_cards en ?t1 ?t2 now s = (r, s1)"
      by (cases "search_cards en ?t1 ?t2 now s")
    from m have m': "cache_lookup 86400 (key_of ?c) now s = None" by simp
    from call_miss_sends [OF m' g] c
    have e: "filter is_ExecSql (new_events s s1) = [ExecSql h (search_query ?t1 ?t2)]"
      by simp
    from call_extends [of en ?c now s] c obtain evs where
      t: "trace s1 = trace s @ evs" by auto
    with e have f: "filter is_ExecSql evs = [ExecSql h (search_query ?t1 ?t2)]" by simp
    from b c t f show ?thesis
      by (cases r) (auto simp: search_section_def Let_def new_events_def split: option.splits)
  qed
  from assms same pass sent show ?thesis by simp
qed

theorem search_section_ignores_case_witness:
  "str_lower env_zero_rows ''vivi'' = str_lower env_zero_rows ''VIVI'' \<and>
   str_lower env_zero_rows ''final fantasy'' = str_lower env_zero_rows ''Final Fantasy'' \<and>
   render_pass env_zero_rows \<lparr>search_term1_raw = ''vivi'', search_term2_raw = ''final fantasy'',
       search_button = True, clear_button = False, selected_row_id = None,
       card_id_input = None\<rparr> 1 state0 =
     render_pass env_zero_rows \<lparr>search_term1_raw = ''VIVI'', search_term2_raw = ''Final Fantasy'',
       search_button = True, clear_button = False, selected_row_id = None,
       card_id_input = None\<rparr> 1 state0 \<and>
   fst (get_snowflake_session env_zero_rows state0) =
     Inr (SessionHandle 1, ''Connected using active Snowflake session'') \<and>
   cache_lookup 86400 (Key_search_cards ''vivi'' ''final fantasy'') 1 state0 = None \<and>
   filter is_ExecSql (new_events state0
       (snd (search_section env_zero_rows \<lparr>search_term1_raw = ''VIVI'',
          search_term2_raw = ''Final Fantasy'', search_button = True, clear_button = False,
          selected_row_id = None, card_id_input = None\<rparr> 1 state0))) =
     [ExecSql (SessionHandle 1) (search_query ''vivi'' ''final fantasy'')]"
proof -
  let ?ui = "\<lparr>search_term1_raw = ''VIVI'', search_term2_raw = ''Final Fantasy'',
       search_button = True, clear_button = False, selected_row_id = None,
       card_id_input = None\<rparr>"
  have "ascii_lower ''VIVI'' = ''vivi''" "ascii_lower ''Final Fantasy'' = ''final fantasy''"
    "ascii_lower ''vivi'' = ''vivi''" "ascii_lower ''final fantasy'' = ''final fantasy''"
    by code_simp+
  then have l: "str_lower env_zero_rows ''VIVI'' = ''vivi''"
    "str_lower env_zero_rows ''Final Fantasy'' = ''final fantasy''"
    "str_lower env_zero_rows ''vivi'' = ''vivi''"
    "str_lower env_zero_rows ''final fantasy'' = ''final fantasy''"
    by (simp_all add: env_zero_rows_def)
  then have h: "str_lower env_zero_rows ''vivi'' = str_lower env_zero_rows (search_term1_raw ?ui)"
    "str_lower env_zero_rows ''final fantasy'' =
      str_lower env_zero_rows (search_term2_raw ?ui)"
    by simp_all
  have g: "fst (get_snowflake_session env_zero_rows state0) =
      Inr (SessionHandle 1, ''Connected using active Snowflake session'')"
    by (simp add: session_active env_zero_rows_def)
  have m: "cache_lookup 86400 (Key_search_cards ''vivi'' ''final fantasy'') 1 state0 = None"
    by (simp add: cache_lookup_def state0_def)
  have b: "search_button ?ui" by simp
  from search_section_ignores_case [OF h, of 1 state0] l g m b
  show ?thesis by simp
qed

end
